theory Spec2Isabelle
  imports Complex_Main
begin

section \<open>The console scripts of radlab-preinvest\<close>

text \<open>
  The repository holds four browser scripts that wire one console page to the endpoints
  \<^verbatim>\<open>/ingest\<close>, \<^verbatim>\<open>/ingest_file\<close>, \<^verbatim>\<open>/search\<close>, \<^verbatim>\<open>/cases\<close>, \<^verbatim>\<open>/explain_case\<close> and
  \<^verbatim>\<open>/mitre_tags\<close>:
  \<^item> \<^verbatim>\<open>src/static/rag_console.js\<close>, definitions with suffix \<open>_A\<close>;
  \<^item> \<^verbatim>\<open>src/unnamed/part_000\<close>, suffix \<open>_B\<close>;
  \<^item> the first script of \<^verbatim>\<open>src/unnamed/part_001\<close> (lines 1 to 334), suffix \<open>_C\<close>;
  \<^item> the second script of \<^verbatim>\<open>src/unnamed/part_001\<close> (from line 336), suffix \<open>_D\<close>.

  A definition without a suffix embeds code whose text is the same in all four scripts
  (\<^verbatim>\<open>callApi\<close>, \<^verbatim>\<open>pretty\<close>, the two clear handlers).

  Every click handler is embedded as a function from the page state before the click to
  the page state after the handler has run to its end. What the browser supplies
  (\<^verbatim>\<open>fetch\<close>, \<^verbatim>\<open>JSON.parse\<close>, \<^verbatim>\<open>JSON.stringify\<close>, the clipboard) is a parameter, the record
  \<open>platform\<close>. Every write to the page and every network call is also appended to the
  field \<open>events\<close> of the state, in the order in which the handler performs it.

  A handler reads the page and the variable \<^verbatim>\<open>lastCaseId\<close> before its first \<^verbatim>\<open>await\<close> and
  writes after it. The model runs one handler at a time: no other handler runs between a
  click and the end of its handler.
\<close>

subsection \<open>JavaScript values\<close>

text \<open>
  A JavaScript string is a \<open>string\<close> whose characters are its code units; the model covers
  code units below 256. A finite Number is kept as the rational it denotes.
\<close>

datatype jsnum = NaN | PosInf | NegInf | Fin rat

datatype json =
    JNull
  | JBool bool
  | JNum jsnum
  | JStr string
  | JArr "json list"
  | JObj "(string \<times> json) list"

text \<open>
  The values the scripts hand around: \<^verbatim>\<open>undefined\<close>, a value as \<^verbatim>\<open>JSON.parse\<close> builds it
  (an object is the list of its own properties, each key once), and an \<^verbatim>\<open>Error\<close> object
  of the platform with its message.
\<close>

datatype jsval = Undefined | Val json | ErrorObject string

text \<open>
  What a \<^verbatim>\<open>catch\<close> clause can receive: the object \<^verbatim>\<open>{ status: resp.status, body: data }\<close>
  thrown by \<^verbatim>\<open>callApi\<close>, or an error object thrown by the platform (a rejected
  \<^verbatim>\<open>fetch\<close>, a property read on \<^verbatim>\<open>null\<close>).
\<close>

datatype exn = ApiError nat json | JsError string

text \<open>ToBoolean on the values \<^verbatim>\<open>JSON.parse\<close> can return.\<close>

fun truthy :: "json \<Rightarrow> bool" where
  "truthy JNull = False"
| "truthy (JBool b) = b"
| "truthy (JNum n) = (n \<noteq> NaN \<and> n \<noteq> Fin 0)"
| "truthy (JStr s) = (s \<noteq> [])"
| "truthy (JArr xs) = True"
| "truthy (JObj kvs) = True"

text \<open>
  The property read \<^verbatim>\<open>v.name\<close> for the names the scripts read (\<^verbatim>\<open>case_id\<close>, \<^verbatim>\<open>summary\<close>,
  \<^verbatim>\<open>tags\<close>, \<^verbatim>\<open>cases\<close>), none of which is a built-in member of a string, a number, a
  boolean, an array or a plain object: on \<^verbatim>\<open>null\<close> the read throws a TypeError, on an
  object it is the own property or \<^verbatim>\<open>undefined\<close>, on everything else \<^verbatim>\<open>undefined\<close>.
\<close>

fun get_prop :: "json \<Rightarrow> string \<Rightarrow> exn + json option" where
  "get_prop JNull name = Inl (JsError (''Cannot read properties of null (reading '' @ name @ '')''))"
| "get_prop (JObj kvs) name = Inr (map_of kvs name)"
| "get_prop v name = Inr None"

text \<open>ToBoolean on the result of a property read: \<^verbatim>\<open>undefined\<close> is falsy.\<close>

fun truthy_opt :: "json option \<Rightarrow> bool" where
  "truthy_opt None = False"
| "truthy_opt (Some v) = truthy v"

subsection \<open>Strings: trim, parseInt, decimal numerals\<close>

text \<open>The white space and line terminators of ECMAScript among the code units below 256.\<close>

definition is_ws :: "char \<Rightarrow> bool" where
  "is_ws c = (c \<in> set [CHR 0x09, CHR 0x0A, CHR 0x0B, CHR 0x0C, CHR 0x0D, CHR 0x20, CHR 0xA0])"

definition trim :: "string \<Rightarrow> string" where
  "trim s = rev (dropWhile is_ws (rev (dropWhile is_ws s)))"

text \<open>The value of a character as a digit of \<^verbatim>\<open>parseInt\<close>: 0 to 9, then the letters in either case.\<close>

definition digit_val :: "char \<Rightarrow> nat option" where
  "digit_val c =
     (let n = of_char c :: nat in
      if 48 \<le> n \<and> n \<le> 57 then Some (n - 48)
      else if 97 \<le> n \<and> n \<le> 122 then Some (n - 87)
      else if 65 \<le> n \<and> n \<le> 90 then Some (n - 55)
      else None)"

definition is_digit :: "nat \<Rightarrow> char \<Rightarrow> bool" where
  "is_digit R c = (case digit_val c of None \<Rightarrow> False | Some d \<Rightarrow> d < R)"

definition digits_value :: "nat \<Rightarrow> string \<Rightarrow> nat" where
  "digits_value R Z = foldl (\<lambda>acc c. acc * R + the (digit_val c)) 0 Z"

text \<open>
  \<^verbatim>\<open>parseInt(string, radix)\<close> as ECMAScript defines it; the radix \<open>0\<close> stands for a call
  without the second argument. Leading white space is dropped, one sign is read, the
  prefix \<^verbatim>\<open>0x\<close> is removed when the radix is 16 or absent, and the longest prefix of
  digits is the number; without a digit the result is \<^verbatim>\<open>NaN\<close>. The result is the exact
  integer (a Number holds it exactly up to \<open>2 ^ 53\<close>).
\<close>

definition parseInt :: "string \<Rightarrow> nat \<Rightarrow> jsnum" where
  "parseInt inputString radix =
     (let S = dropWhile is_ws inputString;
          neg = (S \<noteq> [] \<and> hd S = CHR ''-'');
          S1 = (if S \<noteq> [] \<and> (hd S = CHR ''+'' \<or> hd S = CHR ''-'') then tl S else S)
      in if radix \<noteq> 0 \<and> (radix < 2 \<or> 36 < radix) then NaN
         else
           let stripPrefix = (radix = 0 \<or> radix = 16);
               R0 = (if radix = 0 then 10 else radix);
               hex = (stripPrefix \<and> (take 2 S1 = ''0x'' \<or> take 2 S1 = ''0X''));
               R = (if hex then 16 else R0);
               S2 = (if hex then drop 2 S1 else S1);
               Z = takeWhile (is_digit R) S2
           in if Z = [] then NaN
              else Fin (of_int ((if neg then - 1 else 1) * int (digits_value R Z))))"

text \<open>The decimal numeral of a natural number, as a template literal prints a status code.\<close>

fun show_nat :: "nat \<Rightarrow> string" where
  "show_nat n =
     (if n < 10 then [char_of (48 + n)]
      else show_nat (n div 10) @ [char_of (48 + n mod 10)])"

declare show_nat.simps [simp del]

subsection \<open>The page and the platform\<close>

text \<open>The elements the scripts look up with \<^verbatim>\<open>document.getElementById\<close>, under their ids.\<close>

datatype elem =
    baseUrlDisplay
  | ingestText | ingestMetadata | ingestStatus | ingestResult | ingestBtn | ingestClearBtn
  | searchQuery | searchTopK | searchIncludeMeta | searchStatus | searchResult
  | searchBtn | searchClearBtn
  | caseId
  | loadCasesBtn | caseList | caseListDisplay | caseDetails
  | ingestFile | ingestFileBtn | ingestFileStatus | ingestFileResult
  | explainCaseBtn | explainStatus | explainResult | copyExplainBtn | downloadExplainBtn
  | mitreExtractBtn | mitreStatus | mitreResult

text \<open>A selected file: its name and its content.\<close>

type_synonym js_file = "string \<times> string"

datatype body = StringBody string | FormData "(string \<times> js_file) list"

record request =
  req_url :: string
  req_method :: string
  req_headers :: "(string \<times> string) list"
  req_body :: "body option"

text \<open>
  What one call of \<^verbatim>\<open>fetch\<close> followed by \<^verbatim>\<open>resp.text()\<close> can give: the promise of
  \<^verbatim>\<open>fetch\<close> rejects, or it resolves and reading the body rejects, or both resolve with a
  status code and the text of the body.
\<close>

datatype fetch_outcome =
    FetchRejected string
  | TextRejected nat string
  | Responded nat string

text \<open>\<^verbatim>\<open>resp.ok\<close>: the Fetch standard sets it for a status from 200 to 299.\<close>

definition ok :: "nat \<Rightarrow> bool" where
  "ok st = (200 \<le> st \<and> st \<le> 299)"

text \<open>
  The children of the list element of script C: a text node, or a list item with its text
  and the case object \<^verbatim>\<open>c\<close> its click handler closes over.
\<close>

datatype node = TextNode string | Li string json

datatype event =
    Fetch request
  | SetDisabled elem bool
  | SetText elem string
  | SetValue elem string
  | SetNodes elem "node list"
  | SetOnclick elem
  | ClipboardWrite string
  | SelectContents elem
  | RemoveAllRanges
  | ExecCopy
  | ConsoleError string string
  | Download string string

record platform =
  fetch :: "request \<Rightarrow> fetch_outcome"
  JSON_parse :: "string \<Rightarrow> json option"
  JSON_stringify :: "json \<Rightarrow> string"
  JSON_stringify2 :: "jsval \<Rightarrow> string"
  ToString :: "json \<Rightarrow> string"
  clipboard_writeText :: "(string \<Rightarrow> bool) option"
  execCommand_copy :: "string + bool"

text \<open>
  The fields of \<open>platform\<close>:
  \<^item> \<open>fetch\<close>: the outcome of the network call for a request;
  \<^item> \<open>JSON_parse\<close>: \<^verbatim>\<open>JSON.parse(text)\<close>, \<open>None\<close> when it throws;
  \<^item> \<open>JSON_stringify\<close>: \<^verbatim>\<open>JSON.stringify(v)\<close> of a request body;
  \<^item> \<open>JSON_stringify2\<close>: \<^verbatim>\<open>JSON.stringify(v, null, 2)\<close> of a value other than \<^verbatim>\<open>undefined\<close>;
  \<^item> \<open>ToString\<close>: the conversion to a string of a value that is not a string;
  \<^item> \<open>clipboard_writeText\<close>: \<open>None\<close> when \<^verbatim>\<open>navigator.clipboard.writeText\<close> is missing,
    else whether the write of a text resolves (\<open>True\<close>) or rejects;
  \<^item> \<open>execCommand_copy\<close>: \<^verbatim>\<open>document.execCommand("copy")\<close> throws (\<open>Inl\<close>) or returns a flag.
\<close>

record page =
  textContent :: "elem \<Rightarrow> string"
  field_value :: "elem \<Rightarrow> string"
  checked :: "elem \<Rightarrow> bool"
  disabled :: "elem \<Rightarrow> bool"
  files :: "js_file list"
  has_caseId :: bool
  nodes :: "node list"
  caseList_onclick :: bool
  lastCaseId :: json
  events :: "event list"

text \<open>
  The fields of \<open>page\<close>: the text content, the value, the checked flag and the disabled
  flag of each element; the files of the file input \<^verbatim>\<open>ingestFile\<close>; whether the page has an
  element with id \<^verbatim>\<open>caseId\<close> (script D tests it); the children of \<^verbatim>\<open>caseListDisplay\<close>;
  whether script B has installed the click handler of \<^verbatim>\<open>caseList\<close>; the variable
  \<^verbatim>\<open>lastCaseId\<close>; the trace of effects.
\<close>

definition emit :: "event \<Rightarrow> page \<Rightarrow> page" where
  "emit e s = s\<lparr>events := events s @ [e]\<rparr>"

definition set_disabled :: "elem \<Rightarrow> bool \<Rightarrow> page \<Rightarrow> page" where
  "set_disabled e b s = emit (SetDisabled e b) (s\<lparr>disabled := (disabled s)(e := b)\<rparr>)"

definition set_text :: "elem \<Rightarrow> string \<Rightarrow> page \<Rightarrow> page" where
  "set_text e t s = emit (SetText e t) (s\<lparr>textContent := (textContent s)(e := t)\<rparr>)"

definition set_value :: "elem \<Rightarrow> string \<Rightarrow> page \<Rightarrow> page" where
  "set_value e t s = emit (SetValue e t) (s\<lparr>field_value := (field_value s)(e := t)\<rparr>)"

text \<open>
  An assignment to \<^verbatim>\<open>textContent\<close> converts \<^verbatim>\<open>undefined\<close> to the empty text (the attribute
  is a nullable string).
\<close>

definition nullable :: "string option \<Rightarrow> string" where
  "nullable t = (case t of None \<Rightarrow> [] | Some x \<Rightarrow> x)"

subsection \<open>\<^verbatim>\<open>callApi\<close> and \<^verbatim>\<open>pretty\<close>\<close>

text \<open>
  The second argument of \<^verbatim>\<open>callApi\<close>: the callers pass \<^verbatim>\<open>{ method, body }\<close> or nothing; a
  \<^verbatim>\<open>headers\<close> entry would replace the default headers, since \<^verbatim>\<open>...options\<close> is spread last.
\<close>

record options =
  opt_method :: "string option"
  opt_headers :: "(string \<times> string) list option"
  opt_body :: "body option"

definition no_options :: options where
  "no_options = \<lparr>opt_method = None, opt_headers = None, opt_body = None\<rparr>"

definition post :: "string \<Rightarrow> options" where
  "post b = \<lparr>opt_method = Some ''POST'', opt_headers = None, opt_body = Some (StringBody b)\<rparr>"

definition baseUrl :: string where
  "baseUrl = ''''"

text \<open>The request \<^verbatim>\<open>callApi\<close> hands to \<^verbatim>\<open>fetch\<close>; a request without a method is a GET.\<close>

definition api_request :: "string \<Rightarrow> options \<Rightarrow> request" where
  "api_request path opts =
     \<lparr>req_url = baseUrl @ path,
      req_method = (case opt_method opts of None \<Rightarrow> ''GET'' | Some m \<Rightarrow> m),
      req_headers = (case opt_headers opts of
                       None \<Rightarrow> [(''Content-Type'', ''application/json'')]
                     | Some h \<Rightarrow> h),
      req_body = opt_body opts\<rparr>"

text \<open>\<^verbatim>\<open>try { data = JSON.parse(text); } catch { data = text; }\<close>\<close>

definition decode :: "platform \<Rightarrow> string \<Rightarrow> json" where
  "decode env txt = (case JSON_parse env txt of Some j \<Rightarrow> j | None \<Rightarrow> JStr txt)"

definition callApi :: "platform \<Rightarrow> string \<Rightarrow> options \<Rightarrow> page \<Rightarrow> (exn + json) \<times> page" where
  "callApi env path opts s =
     (let req = api_request path opts;
          s1 = emit (Fetch req) s
      in case fetch env req of
           FetchRejected msg \<Rightarrow> (Inl (JsError msg), s1)
         | TextRejected st msg \<Rightarrow> (Inl (JsError msg), s1)
         | Responded st txt \<Rightarrow>
             (let data = decode env txt
              in if \<not> ok st then (Inl (ApiError st data), s1) else (Inr data, s1)))"

definition pretty :: "platform \<Rightarrow> jsval \<Rightarrow> string option" where
  "pretty env obj = (case obj of Undefined \<Rightarrow> None | _ \<Rightarrow> Some (JSON_stringify2 env obj))"

subsection \<open>What the \<^verbatim>\<open>catch\<close> clauses read from the error\<close>

definition err_status :: "exn \<Rightarrow> nat option" where
  "err_status err = (case err of ApiError st b \<Rightarrow> Some st | JsError msg \<Rightarrow> None)"

definition err_body :: "exn \<Rightarrow> jsval" where
  "err_body err = (case err of ApiError st b \<Rightarrow> Val b | JsError msg \<Rightarrow> Undefined)"

text \<open>The caught value itself, as \<^verbatim>\<open>pretty\<close> receives it.\<close>

definition err_object :: "exn \<Rightarrow> jsval" where
  "err_object err =
     (case err of
        ApiError st b \<Rightarrow> Val (JObj [(''status'', JNum (Fin (of_nat st))), (''body'', b)])
      | JsError msg \<Rightarrow> ErrorObject msg)"

text \<open>\<^verbatim>\<open>err.body ?? err\<close>: the body unless it is \<^verbatim>\<open>undefined\<close> or \<^verbatim>\<open>null\<close>.\<close>

definition err_body_or_err :: "exn \<Rightarrow> jsval" where
  "err_body_or_err err =
     (case err_body err of
        Undefined \<Rightarrow> err_object err
      | Val JNull \<Rightarrow> err_object err
      | v \<Rightarrow> v)"

text \<open>The template \<^verbatim>\<open>`Error: ${err.status}`\<close> of script A.\<close>

definition error_line_A :: "exn \<Rightarrow> string" where
  "error_line_A err =
     ''Error: '' @ (case err_status err of Some st \<Rightarrow> show_nat st | None \<Rightarrow> ''undefined'')"

text \<open>The template \<^verbatim>\<open>`Error: ${err.status ?? "?"}`\<close> of scripts B, C and D.\<close>

definition error_line :: "exn \<Rightarrow> string" where
  "error_line err =
     ''Error: '' @ (case err_status err of Some st \<Rightarrow> show_nat st | None \<Rightarrow> ''?'')"

text \<open>The three forms of the \<^verbatim>\<open>catch\<close> clause, for a status element and a result element.\<close>

definition catch_A :: "platform \<Rightarrow> elem \<Rightarrow> elem \<Rightarrow> exn \<Rightarrow> page \<Rightarrow> page" where
  "catch_A env status result err s =
     (let s1 = set_text status (error_line_A err) s
      in set_text result (nullable (pretty env (err_body err))) s1)"

definition catch_B :: "platform \<Rightarrow> elem \<Rightarrow> elem \<Rightarrow> exn \<Rightarrow> page \<Rightarrow> page" where
  "catch_B env status result err s =
     (let s1 = set_text status (error_line err) s
      in set_text result (nullable (pretty env (err_body err))) s1)"

definition catch_C :: "platform \<Rightarrow> elem \<Rightarrow> elem \<Rightarrow> exn \<Rightarrow> page \<Rightarrow> page" where
  "catch_C env status result err s =
     (let s1 = set_text status (error_line err) s
      in set_text result (nullable (pretty env (err_body_or_err err))) s1)"

text \<open>
  The test \<^verbatim>\<open>res && res.name\<close>: the property when both \<^verbatim>\<open>res\<close> and the property are
  truthy (a truthy \<^verbatim>\<open>res\<close> is not \<^verbatim>\<open>null\<close>, so the read does not throw).
\<close>

definition and_prop :: "json \<Rightarrow> string \<Rightarrow> json option" where
  "and_prop res name =
     (if truthy res
      then (case get_prop res name of
              Inr (Some v) \<Rightarrow> (if truthy v then Some v else None)
            | _ \<Rightarrow> None)
      else None)"

text \<open>The conversion of a value to a string, when it is assigned to a text or put in a template.\<close>

definition js_string :: "platform \<Rightarrow> json \<Rightarrow> string" where
  "js_string env v = (case v of JStr t \<Rightarrow> t | _ \<Rightarrow> ToString env v)"

subsection \<open>Text ingest\<close>

text \<open>\<^verbatim>\<open>const body = { text }; if (metadata) body.metadata = metadata;\<close> (scripts A and D)\<close>

definition ingest_body_opt :: "string \<Rightarrow> json option \<Rightarrow> json" where
  "ingest_body_opt text_v metadata =
     JObj ([(''text'', JStr text_v)] @
           (case metadata of
              None \<Rightarrow> []
            | Some m \<Rightarrow> (if truthy m then [(''metadata'', m)] else [])))"

text \<open>\<^verbatim>\<open>const body = { text, metadata };\<close> (scripts B and C)\<close>

definition ingest_body :: "string \<Rightarrow> json \<Rightarrow> json" where
  "ingest_body text_v metadata = JObj [(''text'', JStr text_v), (''metadata'', metadata)]"

text \<open>
  \<^verbatim>\<open>metadata = metadataRaw ? JSON.parse(metadataRaw) : { source: "ui" }\<close> inside \<^verbatim>\<open>try\<close>
  (scripts B, C and D); \<open>None\<close> when \<^verbatim>\<open>JSON.parse\<close> throws.
\<close>

definition metadata_or_default :: "platform \<Rightarrow> string \<Rightarrow> json option" where
  "metadata_or_default env metadataRaw =
     (if metadataRaw \<noteq> [] then JSON_parse env metadataRaw
      else Some (JObj [(''source'', JStr ''ui'')]))"

definition ingestBtn_click_A :: "platform \<Rightarrow> page \<Rightarrow> page" where
  "ingestBtn_click_A env s =
     (let text_v = trim (field_value s ingestText);
          metadataRaw = trim (field_value s ingestMetadata)
      in if text_v = [] then set_text ingestStatus ''Enter text.'' s
         else if metadataRaw \<noteq> [] \<and> JSON_parse env metadataRaw = None
         then set_text ingestStatus ''Invalid metadata JSON.'' s
         else
           let metadata = (if metadataRaw \<noteq> [] then JSON_parse env metadataRaw else None);
               s1 = set_disabled ingestBtn True s;
               s2 = set_text ingestStatus ''Ingesting...'' s1;
               s3 = set_text ingestResult ''{}'' s2;
               body = ingest_body_opt text_v metadata;
               (r, s4) = callApi env ''/ingest'' (post (JSON_stringify env body)) s3;
               s5 = (case r of
                       Inr res \<Rightarrow>
                         set_text ingestResult (nullable (pretty env (Val res)))
                           (set_text ingestStatus ''Ingest OK.'' s4)
                     | Inl err \<Rightarrow> catch_A env ingestStatus ingestResult err s4)
           in set_disabled ingestBtn False s5)"

definition ingestBtn_click_B :: "platform \<Rightarrow> page \<Rightarrow> page" where
  "ingestBtn_click_B env s =
     (let text_v = trim (field_value s ingestText);
          metadataRaw = trim (field_value s ingestMetadata)
      in if text_v = [] then set_text ingestStatus ''Enter text.'' s
         else case metadata_or_default env metadataRaw of
           None \<Rightarrow> set_text ingestStatus ''Invalid metadata JSON.'' s
         | Some metadata \<Rightarrow>
             let s1 = set_disabled ingestBtn True s;
                 s2 = set_text ingestStatus ''Ingesting...'' s1;
                 s3 = set_text ingestResult ''{}'' s2;
                 body = ingest_body text_v metadata;
                 (r, s4) = callApi env ''/ingest'' (post (JSON_stringify env body)) s3;
                 s5 = (case r of
                         Inr res \<Rightarrow>
                           (let s4a = set_text ingestStatus ''Ingest OK.'' s4;
                                s4b = set_text ingestResult (nullable (pretty env (Val res))) s4a
                            in case and_prop res ''case_id'' of
                                 Some c \<Rightarrow> s4b\<lparr>lastCaseId := c\<rparr>
                               | None \<Rightarrow> s4b)
                       | Inl err \<Rightarrow> catch_B env ingestStatus ingestResult err s4)
             in set_disabled ingestBtn False s5)"

definition ingestBtn_click_C :: "platform \<Rightarrow> page \<Rightarrow> page" where
  "ingestBtn_click_C env s =
     (let text_v = trim (field_value s ingestText);
          metadataRaw = trim (field_value s ingestMetadata)
      in if text_v = [] then set_text ingestStatus ''Enter text.'' s
         else case metadata_or_default env metadataRaw of
           None \<Rightarrow> set_text ingestStatus ''Invalid metadata JSON.'' s
         | Some metadata \<Rightarrow>
             let s1 = set_disabled ingestBtn True s;
                 s2 = set_text ingestStatus ''Ingesting...'' s1;
                 s3 = set_text ingestResult ''{}'' s2;
                 body = ingest_body text_v metadata;
                 (r, s4) = callApi env ''/ingest'' (post (JSON_stringify env body)) s3;
                 s5 = (case r of
                         Inr res \<Rightarrow>
                           (let s4a = set_text ingestStatus ''Ingest OK.'' s4;
                                s4b = set_text ingestResult (nullable (pretty env (Val res))) s4a
                            in case and_prop res ''case_id'' of
                                 Some c \<Rightarrow> s4b\<lparr>lastCaseId := c\<rparr>
                               | None \<Rightarrow> s4b)
                       | Inl err \<Rightarrow> catch_C env ingestStatus ingestResult err s4)
             in set_disabled ingestBtn False s5)"

text \<open>
  Script D also echoes the identifier into the field \<^verbatim>\<open>caseId\<close> when the page has one; the
  field is taken to keep the assigned text as it is.
\<close>

definition ingestBtn_click_D :: "platform \<Rightarrow> page \<Rightarrow> page" where
  "ingestBtn_click_D env s =
     (let text_v = trim (field_value s ingestText);
          metadataRaw = trim (field_value s ingestMetadata)
      in if text_v = [] then set_text ingestStatus ''Enter text.'' s
         else case metadata_or_default env metadataRaw of
           None \<Rightarrow> set_text ingestStatus ''Invalid metadata JSON.'' s
         | Some metadata \<Rightarrow>
             let s1 = set_disabled ingestBtn True s;
                 s2 = set_text ingestStatus ''Ingesting...'' s1;
                 s3 = set_text ingestResult ''{}'' s2;
                 body = ingest_body_opt text_v (Some metadata);
                 (r, s4) = callApi env ''/ingest'' (post (JSON_stringify env body)) s3;
                 s5 = (case r of
                         Inr res \<Rightarrow>
                           (let s4a = set_text ingestStatus ''Ingest OK.'' s4;
                                s4b = set_text ingestResult (nullable (pretty env (Val res))) s4a
                            in case and_prop res ''case_id'' of
                                 Some c \<Rightarrow>
                                   (let s4c = s4b\<lparr>lastCaseId := c\<rparr>
                                    in if has_caseId s4c
                                       then set_value caseId (js_string env c) s4c
                                       else s4c)
                               | None \<Rightarrow> s4b)
                       | Inl err \<Rightarrow> catch_B env ingestStatus ingestResult err s4)
             in set_disabled ingestBtn False s5)"

text \<open>The handler of \<^verbatim>\<open>ingestClearBtn\<close>, the same in the four scripts.\<close>

definition ingestClearBtn_click :: "page \<Rightarrow> page" where
  "ingestClearBtn_click s =
     (let s1 = set_value ingestText '''' s;
          s2 = set_value ingestMetadata '''' s1;
          s3 = set_text ingestStatus '''' s2
      in set_text ingestResult ''{}'' s3)"

subsection \<open>File ingest (script C)\<close>

definition ingest_file_request :: "js_file \<Rightarrow> request" where
  "ingest_file_request f =
     \<lparr>req_url = baseUrl @ ''/ingest_file'', req_method = ''POST'', req_headers = [],
      req_body = Some (FormData [(''file'', f)])\<rparr>"

text \<open>
  The handler calls \<^verbatim>\<open>fetch\<close> itself, without \<^verbatim>\<open>callApi\<close>, and repeats its decoding and its
  throw.
\<close>

definition ingestFileBtn_click_C :: "platform \<Rightarrow> page \<Rightarrow> page" where
  "ingestFileBtn_click_C env s =
     (let s0a = set_text ingestFileStatus '''' s;
          s0 = set_text ingestFileResult ''{}'' s0a
      in case files s of
           [] \<Rightarrow> set_text ingestFileStatus ''Choose a file first.'' s0
         | f # fs \<Rightarrow>
             let req = ingest_file_request f;
                 s1 = set_disabled ingestFileBtn True s0;
                 s2 = set_text ingestFileStatus ''Uploading & ingesting file...'' s1;
                 s3 = emit (Fetch req) s2;
                 r = (case fetch env req of
                        FetchRejected msg \<Rightarrow> Inl (JsError msg)
                      | TextRejected st msg \<Rightarrow> Inl (JsError msg)
                      | Responded st txt \<Rightarrow>
                          (let data = decode env txt
                           in if \<not> ok st then Inl (ApiError st data) else Inr data));
                 s5 = (case r of
                         Inr data \<Rightarrow>
                           (let s4a = set_text ingestFileStatus ''File ingest OK.'' s3;
                                s4b = set_text ingestFileResult (nullable (pretty env (Val data))) s4a
                            in case and_prop data ''case_id'' of
                                 Some c \<Rightarrow> s4b\<lparr>lastCaseId := c\<rparr>
                               | None \<Rightarrow> s4b)
                       | Inl err \<Rightarrow> catch_C env ingestFileStatus ingestFileResult err s3)
             in set_disabled ingestFileBtn False s5)"

subsection \<open>Search\<close>

text \<open>\<^verbatim>\<open>document.getElementById("searchTopK").value || "5"\<close>\<close>

definition top_k_text :: "page \<Rightarrow> string" where
  "top_k_text s = (if field_value s searchTopK \<noteq> [] then field_value s searchTopK else ''5'')"

text \<open>\<^verbatim>\<open>{ query, top_k, include_metadata }\<close> (script A)\<close>

definition search_body_A :: "string \<Rightarrow> jsnum \<Rightarrow> bool \<Rightarrow> json" where
  "search_body_A query top_k include_metadata =
     JObj [(''query'', JStr query), (''top_k'', JNum top_k),
           (''include_metadata'', JBool include_metadata)]"

text \<open>\<^verbatim>\<open>{ case_id, query, top_k, include_metadata }\<close> (scripts B, C and D)\<close>

definition search_body :: "json \<Rightarrow> string \<Rightarrow> jsnum \<Rightarrow> bool \<Rightarrow> json" where
  "search_body case_id_v query top_k include_metadata =
     JObj [(''case_id'', case_id_v), (''query'', JStr query), (''top_k'', JNum top_k),
           (''include_metadata'', JBool include_metadata)]"

definition searchBtn_click_A :: "platform \<Rightarrow> page \<Rightarrow> page" where
  "searchBtn_click_A env s =
     (let query = trim (field_value s searchQuery);
          top_k = parseInt (top_k_text s) 0;
          include_metadata = checked s searchIncludeMeta
      in if query = [] then set_text searchStatus ''Enter query.'' s
         else
           let s1 = set_disabled searchBtn True s;
               s2 = set_text searchStatus ''Searching...'' s1;
               s3 = set_text searchResult ''{}'' s2;
               body = search_body_A query top_k include_metadata;
               (r, s4) = callApi env ''/search'' (post (JSON_stringify env body)) s3;
               s5 = (case r of
                       Inr res \<Rightarrow>
                         set_text searchResult (nullable (pretty env (Val res)))
                           (set_text searchStatus ''Search OK.'' s4)
                     | Inl err \<Rightarrow> catch_A env searchStatus searchResult err s4)
           in set_disabled searchBtn False s5)"

definition searchBtn_click_B :: "platform \<Rightarrow> page \<Rightarrow> page" where
  "searchBtn_click_B env s =
     (let query = trim (field_value s searchQuery);
          top_k = parseInt (top_k_text s) 10;
          include_metadata = checked s searchIncludeMeta;
          case_id_v = lastCaseId s
      in if query = [] then set_text searchStatus ''Enter query.'' s
         else if \<not> truthy case_id_v
         then set_text searchStatus ''Missing case_id: ingest first.'' s
         else
           let s1 = set_disabled searchBtn True s;
               s2 = set_text searchStatus ''Searching...'' s1;
               s3 = set_text searchResult ''{}'' s2;
               body = search_body case_id_v query top_k include_metadata;
               (r, s4) = callApi env ''/search'' (post (JSON_stringify env body)) s3;
               s5 = (case r of
                       Inr res \<Rightarrow>
                         set_text searchResult (nullable (pretty env (Val res)))
                           (set_text searchStatus ''Search OK.'' s4)
                     | Inl err \<Rightarrow> catch_B env searchStatus searchResult err s4)
           in set_disabled searchBtn False s5)"

definition searchBtn_click_C :: "platform \<Rightarrow> page \<Rightarrow> page" where
  "searchBtn_click_C env s =
     (let query = trim (field_value s searchQuery);
          top_k = parseInt (top_k_text s) 10;
          include_metadata = checked s searchIncludeMeta;
          case_id_v = lastCaseId s
      in if query = [] then set_text searchStatus ''Enter query.'' s
         else if \<not> truthy case_id_v
         then set_text searchStatus ''Missing case_id: ingest first (text or file).'' s
         else
           let s1 = set_disabled searchBtn True s;
               s2 = set_text searchStatus ''Searching...'' s1;
               s3 = set_text searchResult ''{}'' s2;
               body = search_body case_id_v query top_k include_metadata;
               (r, s4) = callApi env ''/search'' (post (JSON_stringify env body)) s3;
               s5 = (case r of
                       Inr res \<Rightarrow>
                         set_text searchResult (nullable (pretty env (Val res)))
                           (set_text searchStatus ''Search OK.'' s4)
                     | Inl err \<Rightarrow> catch_C env searchStatus searchResult err s4)
           in set_disabled searchBtn False s5)"

text \<open>
  \<^verbatim>\<open>(caseInput && caseInput.value.trim()) || lastCaseId\<close>: the trimmed field when the page
  has the field and the trimmed text is not empty, else the variable.
\<close>

definition search_case_id_D :: "page \<Rightarrow> json" where
  "search_case_id_D s =
     (if has_caseId s \<and> trim (field_value s caseId) \<noteq> []
      then JStr (trim (field_value s caseId))
      else lastCaseId s)"

definition searchBtn_click_D :: "platform \<Rightarrow> page \<Rightarrow> page" where
  "searchBtn_click_D env s =
     (let query = trim (field_value s searchQuery);
          top_k = parseInt (top_k_text s) 10;
          include_metadata = checked s searchIncludeMeta;
          case_id_v = search_case_id_D s
      in if query = [] then set_text searchStatus ''Enter query.'' s
         else if \<not> truthy case_id_v
         then set_text searchStatus ''Missing case_id: ingest text first or enter a case id.'' s
         else
           let s1 = set_disabled searchBtn True s;
               s2 = set_text searchStatus ''Searching...'' s1;
               s3 = set_text searchResult ''{}'' s2;
               body = search_body case_id_v query top_k include_metadata;
               (r, s4) = callApi env ''/search'' (post (JSON_stringify env body)) s3;
               s5 = (case r of
                       Inr res \<Rightarrow>
                         set_text searchResult (nullable (pretty env (Val res)))
                           (set_text searchStatus ''Search OK.'' s4)
                     | Inl err \<Rightarrow> catch_B env searchStatus searchResult err s4)
           in set_disabled searchBtn False s5)"

text \<open>The handler of \<^verbatim>\<open>searchClearBtn\<close>, the same in the four scripts.\<close>

definition searchClearBtn_click :: "page \<Rightarrow> page" where
  "searchClearBtn_click s =
     (let s1 = set_value searchQuery '''' s;
          s2 = set_text searchResult ''{}'' s1
      in set_text searchStatus '''' s2)"

subsection \<open>Case viewer\<close>

text \<open>
  \<^verbatim>\<open>text.match(/"case_id": "([^"]+)"/)\<close>: the first group of the leftmost match. At each
  position the group is the longest run of characters other than the double quote; the
  match needs a run that is not empty and a double quote after it.
\<close>

fun match_case_id :: "string \<Rightarrow> string option" where
  "match_case_id [] = None"
| "match_case_id (c # cs) =
     (let t = c # cs;
          pre = ''\"case_id\": \"'';
          rest = drop (length pre) t;
          grp = takeWhile (\<lambda>x. x \<noteq> CHR ''\"'') rest;
          after = dropWhile (\<lambda>x. x \<noteq> CHR ''\"'') rest
      in if take (length pre) t = pre \<and> grp \<noteq> [] \<and> after \<noteq> [] then Some grp
         else match_case_id cs)"

text \<open>Script B writes the whole answer into \<^verbatim>\<open>caseList\<close> and installs a click handler on it.\<close>

definition loadCasesBtn_click_B :: "platform \<Rightarrow> page \<Rightarrow> page" where
  "loadCasesBtn_click_B env s =
     (let s1 = set_text caseList ''Loading...'' s;
          (r, s2) = callApi env ''/cases'' no_options s1
      in case r of
           Inr res \<Rightarrow>
             (let s3 = set_text caseList (nullable (pretty env (Val res))) s2
              in emit (SetOnclick caseList) (s3\<lparr>caseList_onclick := True\<rparr>))
         | Inl err \<Rightarrow> set_text caseList (nullable (pretty env (err_body err))) s2)"

text \<open>
  The click handler of \<^verbatim>\<open>caseList\<close>, once installed. The element holds text only, so the
  target of the click is the element itself. The call is not inside a \<^verbatim>\<open>try\<close>: when it
  throws, the handler ends there.
\<close>

definition caseList_click_B :: "platform \<Rightarrow> page \<Rightarrow> page" where
  "caseList_click_B env s =
     (if \<not> caseList_onclick s then s
      else case match_case_id (textContent s caseList) of
             None \<Rightarrow> s
           | Some case_id_v \<Rightarrow>
               (let (r, s1) = callApi env (''/cases/'' @ case_id_v) no_options s
                in case r of
                     Inr details \<Rightarrow> set_text caseDetails (nullable (pretty env (Val details))) s1
                   | Inl err \<Rightarrow> s1))"

text \<open>An assignment to \<^verbatim>\<open>textContent\<close> or \<^verbatim>\<open>innerHTML\<close> of the list element, for a plain text.\<close>

definition set_nodes :: "node list \<Rightarrow> page \<Rightarrow> page" where
  "set_nodes ns s = emit (SetNodes caseListDisplay ns) (s\<lparr>nodes := ns\<rparr>)"

definition text_nodes :: "string \<Rightarrow> node list" where
  "text_nodes t = (if t = [] then [] else [TextNode t])"

text \<open>\<^verbatim>\<open>li.textContent = c.case_id\<close>: \<^verbatim>\<open>undefined\<close> and \<^verbatim>\<open>null\<close> give the empty text.\<close>

definition dom_text :: "platform \<Rightarrow> json option \<Rightarrow> string" where
  "dom_text env v = (case v of None \<Rightarrow> [] | Some JNull \<Rightarrow> [] | Some x \<Rightarrow> js_string env x)"

text \<open>
  What \<^verbatim>\<open>for (const c of res.cases || [])\<close> iterates over: the elements of an array, the
  characters of a string; any other truthy value is not iterable.
\<close>

definition iterate :: "json option \<Rightarrow> exn + json list" where
  "iterate v =
     (if \<not> truthy_opt v then Inr []
      else case v of
             Some (JArr xs) \<Rightarrow> Inr xs
           | Some (JStr t) \<Rightarrow> Inr (map (\<lambda>ch. JStr [ch]) t)
           | _ \<Rightarrow> Inl (JsError ''res.cases is not iterable''))"

text \<open>
  The body of the loop: one list item per case, until a read of \<^verbatim>\<open>c.case_id\<close> throws. The
  style of the item (cursor, colour) is not part of the model.
\<close>

fun append_items :: "platform \<Rightarrow> json list \<Rightarrow> page \<Rightarrow> exn option \<times> page" where
  "append_items env [] s = (None, s)"
| "append_items env (c # cs) s =
     (case get_prop c ''case_id'' of
        Inl err \<Rightarrow> (Some err, s)
      | Inr v \<Rightarrow> append_items env cs (set_nodes (nodes s @ [Li (dom_text env v) c]) s))"

text \<open>\<^verbatim>\<open>!res.cases || res.cases.length === 0\<close>, for a value the loop has iterated over.\<close>

definition no_cases :: "json option \<Rightarrow> bool" where
  "no_cases v = (\<not> truthy_opt v \<or> v = Some (JArr []))"

definition loadCasesBtn_click_C :: "platform \<Rightarrow> page \<Rightarrow> page" where
  "loadCasesBtn_click_C env s =
     (let s1 = set_nodes (text_nodes ''Loading...'') s;
          (r, s2) = callApi env ''/cases'' no_options s1;
          on_error = (\<lambda>err t. set_nodes (text_nodes (nullable (pretty env (err_body_or_err err)))) t)
      in case r of
           Inl err \<Rightarrow> on_error err s2
         | Inr res \<Rightarrow>
             (let s3 = set_nodes [] s2
              in case get_prop res ''cases'' of
                   Inl err \<Rightarrow> on_error err s3
                 | Inr cases \<Rightarrow>
                     (case iterate cases of
                        Inl err \<Rightarrow> on_error err s3
                      | Inr cs \<Rightarrow>
                          (case append_items env cs s3 of
                             (Some err, s4) \<Rightarrow> on_error err s4
                           | (None, s4) \<Rightarrow>
                               (if no_cases cases
                                then set_nodes (text_nodes ''No cases yet. Ingest something first.'') s4
                                else s4)))))"

text \<open>
  The template \<^verbatim>\<open>`/cases/${c.case_id}`\<close> of a list item, for a case \<^verbatim>\<open>c\<close> that is not
  \<^verbatim>\<open>null\<close> (the loop has read \<^verbatim>\<open>c.case_id\<close> before it appended the item).
\<close>

definition template_text :: "platform \<Rightarrow> json option \<Rightarrow> string" where
  "template_text env v = (case v of None \<Rightarrow> ''undefined'' | Some x \<Rightarrow> js_string env x)"

text \<open>The click handler of the \<open>i\<close>-th child of the list, when that child is a list item.\<close>

definition li_click_C :: "platform \<Rightarrow> nat \<Rightarrow> page \<Rightarrow> page" where
  "li_click_C env i s =
     (if \<not> i < length (nodes s) then s
      else case nodes s ! i of
             TextNode t \<Rightarrow> s
           | Li t c \<Rightarrow>
               (case get_prop c ''case_id'' of
                  Inl err \<Rightarrow> s
                | Inr v \<Rightarrow>
                    (let (r, s1) = callApi env (''/cases/'' @ template_text env v) no_options s
                     in case r of
                          Inr details \<Rightarrow>
                            set_text caseDetails (nullable (pretty env (Val details))) s1
                        | Inl err \<Rightarrow> s1)))"

subsection \<open>Explain, report export and MITRE extraction (script C)\<close>

definition explainCaseBtn_click_C :: "platform \<Rightarrow> page \<Rightarrow> page" where
  "explainCaseBtn_click_C env s =
     (if \<not> truthy (lastCaseId s) then set_text explainStatus ''No case selected.'' s
      else
        let s1 = set_disabled explainCaseBtn True s;
            s2 = set_text explainStatus ''Summarizing case...'' s1;
            s3 = set_text explainResult ''{}'' s2;
            body = JObj [(''case_id'', lastCaseId s)];
            (r, s4) = callApi env ''/explain_case'' (post (JSON_stringify env body)) s3;
            s5 = (case r of
                    Inr res \<Rightarrow>
                      (let s4a = set_text explainStatus ''AI summary ready.'' s4
                       in case get_prop res ''summary'' of
                            Inl err \<Rightarrow> catch_C env explainStatus explainResult err s4a
                          | Inr summary \<Rightarrow>
                              (case summary of
                                 Some v \<Rightarrow>
                                   (if truthy v then set_text explainResult (js_string env v) s4a
                                    else set_text explainResult (nullable (pretty env (Val res))) s4a)
                               | None \<Rightarrow>
                                   set_text explainResult (nullable (pretty env (Val res))) s4a))
                  | Inl err \<Rightarrow> catch_C env explainStatus explainResult err s4)
        in set_disabled explainCaseBtn False s5)"

definition copyExplainBtn_click_C :: "platform \<Rightarrow> page \<Rightarrow> page" where
  "copyExplainBtn_click_C env s =
     (let text_v = trim (textContent s explainResult);
          on_error = (\<lambda>msg t. emit (ConsoleError ''Copy report failed:'' msg)
                                 (set_text explainStatus ''Copy failed.'' t))
      in if text_v = [] \<or> text_v = ''{}''
         then set_text explainStatus ''Nothing to copy yet. Run Explain Case first.'' s
         else case clipboard_writeText env of
           Some writeText \<Rightarrow>
             (let s1 = emit (ClipboardWrite text_v) s
              in if writeText text_v
                 then set_text explainStatus ''Report copied to clipboard.'' s1
                 else on_error ''rejected'' s1)
         | None \<Rightarrow>
             (let s1 = emit RemoveAllRanges s;
                  s2 = emit (SelectContents explainResult) s1;
                  s3 = emit ExecCopy s2
              in case execCommand_copy env of
                   Inr ok_flag \<Rightarrow>
                     emit RemoveAllRanges
                       (set_text explainStatus
                          (if ok_flag then ''Report copied to clipboard.'' else ''Copy failed.'') s3)
                 | Inl msg \<Rightarrow> on_error msg (emit RemoveAllRanges s3)))"

text \<open>
  \<^verbatim>\<open>(typeof lastCaseId === "string" && lastCaseId) ? lastCaseId : "unknown_case"\<close>
\<close>

definition caseIdForName :: "page \<Rightarrow> string" where
  "caseIdForName s =
     (case lastCaseId s of
        JStr t \<Rightarrow> (if t \<noteq> [] then t else ''unknown_case'')
      | _ \<Rightarrow> ''unknown_case'')"

definition downloadExplainBtn_click_C :: "page \<Rightarrow> page" where
  "downloadExplainBtn_click_C s =
     (let text_v = trim (textContent s explainResult)
      in if text_v = [] \<or> text_v = ''{}''
         then set_text explainStatus ''Nothing to download yet. Run Explain Case first.'' s
         else
           let filename = ''dfir_report_'' @ caseIdForName s @ ''.md'';
               s1 = emit (Download filename text_v) s
           in set_text explainStatus (''Report downloaded as '' @ filename @ ''.'') s1)"

definition mitreExtractBtn_click_C :: "platform \<Rightarrow> page \<Rightarrow> page" where
  "mitreExtractBtn_click_C env s =
     (let summary = trim (textContent s explainResult)
      in if \<not> truthy (lastCaseId s) then set_text mitreStatus ''No case selected.'' s
         else if summary = [] \<or> summary = ''{}''
         then set_text mitreStatus ''No summary yet. Run Explain Case first.'' s
         else
           let s1 = set_disabled mitreExtractBtn True s;
               s2 = set_text mitreStatus ''Extracting MITRE techniques...'' s1;
               s3 = set_text mitreResult ''{}'' s2;
               body = JObj [(''case_id'', lastCaseId s), (''summary'', JStr summary)];
               (r, s4) = callApi env ''/mitre_tags'' (post (JSON_stringify env body)) s3;
               s5 = (case r of
                       Inr res \<Rightarrow>
                         (let s4a = set_text mitreStatus ''MITRE extraction OK.'' s4
                          in case get_prop res ''tags'' of
                               Inl err \<Rightarrow> catch_C env mitreStatus mitreResult err s4a
                             | Inr tags \<Rightarrow>
                                 (case tags of
                                    Some v \<Rightarrow>
                                      (if truthy v
                                       then set_text mitreResult (nullable (pretty env (Val v))) s4a
                                       else set_text mitreResult (nullable (pretty env (Val res))) s4a)
                                  | None \<Rightarrow>
                                      set_text mitreResult (nullable (pretty env (Val res))) s4a))
                     | Inl err \<Rightarrow> catch_C env mitreStatus mitreResult err s4)
           in set_disabled mitreExtractBtn False s5)"

subsection \<open>A session: the start of a script and the actions of the user\<close>

text \<open>
  The top level of each script writes \<^verbatim>\<open>baseUrl || "/"\<close> into \<^verbatim>\<open>baseUrlDisplay\<close>; scripts B, C
  and D also declare \<^verbatim>\<open>let lastCaseId = ""\<close>.
\<close>

definition script_start :: "page \<Rightarrow> page" where
  "script_start s =
     set_text baseUrlDisplay (if baseUrl \<noteq> [] then baseUrl else ''/'') (s\<lparr>lastCaseId := JStr ''''\<rparr>)"

text \<open>
  What the user can do between two handlers: click an element, click the \<open>i\<close>-th child of
  the case list, type into a field, set a check box, choose files.
\<close>

datatype action =
    Click elem
  | ClickItem nat
  | TypeInto elem string
  | SetChecked elem bool
  | ChooseFiles "js_file list"

definition user_input :: "action \<Rightarrow> page \<Rightarrow> page" where
  "user_input a s =
     (case a of
        TypeInto e v \<Rightarrow> s\<lparr>field_value := (field_value s)(e := v)\<rparr>
      | SetChecked e b \<Rightarrow> s\<lparr>checked := (checked s)(e := b)\<rparr>
      | ChooseFiles fs \<Rightarrow> s\<lparr>files := fs\<rparr>
      | _ \<Rightarrow> s)"

definition step_A :: "platform \<Rightarrow> action \<Rightarrow> page \<Rightarrow> page" where
  "step_A env a s =
     (case a of
        Click ingestBtn \<Rightarrow> ingestBtn_click_A env s
      | Click ingestClearBtn \<Rightarrow> ingestClearBtn_click s
      | Click searchBtn \<Rightarrow> searchBtn_click_A env s
      | Click searchClearBtn \<Rightarrow> searchClearBtn_click s
      | _ \<Rightarrow> user_input a s)"

definition step_B :: "platform \<Rightarrow> action \<Rightarrow> page \<Rightarrow> page" where
  "step_B env a s =
     (case a of
        Click ingestBtn \<Rightarrow> ingestBtn_click_B env s
      | Click ingestClearBtn \<Rightarrow> ingestClearBtn_click s
      | Click searchBtn \<Rightarrow> searchBtn_click_B env s
      | Click searchClearBtn \<Rightarrow> searchClearBtn_click s
      | Click loadCasesBtn \<Rightarrow> loadCasesBtn_click_B env s
      | Click caseList \<Rightarrow> caseList_click_B env s
      | _ \<Rightarrow> user_input a s)"

definition step_C :: "platform \<Rightarrow> action \<Rightarrow> page \<Rightarrow> page" where
  "step_C env a s =
     (case a of
        Click ingestBtn \<Rightarrow> ingestBtn_click_C env s
      | Click ingestClearBtn \<Rightarrow> ingestClearBtn_click s
      | Click ingestFileBtn \<Rightarrow> ingestFileBtn_click_C env s
      | Click searchBtn \<Rightarrow> searchBtn_click_C env s
      | Click searchClearBtn \<Rightarrow> searchClearBtn_click s
      | Click loadCasesBtn \<Rightarrow> loadCasesBtn_click_C env s
      | ClickItem i \<Rightarrow> li_click_C env i s
      | Click explainCaseBtn \<Rightarrow> explainCaseBtn_click_C env s
      | Click copyExplainBtn \<Rightarrow> copyExplainBtn_click_C env s
      | Click downloadExplainBtn \<Rightarrow> downloadExplainBtn_click_C s
      | Click mitreExtractBtn \<Rightarrow> mitreExtractBtn_click_C env s
      | _ \<Rightarrow> user_input a s)"

definition step_D :: "platform \<Rightarrow> action \<Rightarrow> page \<Rightarrow> page" where
  "step_D env a s =
     (case a of
        Click ingestBtn \<Rightarrow> ingestBtn_click_D env s
      | Click ingestClearBtn \<Rightarrow> ingestClearBtn_click s
      | Click searchBtn \<Rightarrow> searchBtn_click_D env s
      | Click searchClearBtn \<Rightarrow> searchClearBtn_click s
      | _ \<Rightarrow> user_input a s)"

text \<open>A session: the actions of the user one after the other, each with the platform it meets.\<close>

fun run ::
    "(platform \<Rightarrow> action \<Rightarrow> page \<Rightarrow> page) \<Rightarrow> (platform \<times> action) list \<Rightarrow> page \<Rightarrow> page" where
  "run step [] s = s"
| "run step (ea # rest) s = run step rest (step (fst ea) (snd ea) s)"

subsection \<open>Reading the trace\<close>

text \<open>The events a handler has added, and the requests among a list of events.\<close>

definition added :: "page \<Rightarrow> page \<Rightarrow> event list" where
  "added s s' = drop (length (events s)) (events s')"

fun requests :: "event list \<Rightarrow> request list" where
  "requests [] = []"
| "requests (Fetch r # es) = r # requests es"
| "requests (e # es) = requests es"

subsection \<open>Passing local validation\<close>

text \<open>The guards of the handlers, as conditions on the page before the click.\<close>

definition ingest_valid :: "platform \<Rightarrow> page \<Rightarrow> bool" where
  "ingest_valid env s =
     (trim (field_value s ingestText) \<noteq> [] \<and>
      (trim (field_value s ingestMetadata) = [] \<or>
       JSON_parse env (trim (field_value s ingestMetadata)) \<noteq> None))"

definition file_valid :: "page \<Rightarrow> bool" where
  "file_valid s = (files s \<noteq> [])"

definition search_valid_A :: "page \<Rightarrow> bool" where
  "search_valid_A s = (trim (field_value s searchQuery) \<noteq> [])"

definition search_valid :: "page \<Rightarrow> bool" where
  "search_valid s = (trim (field_value s searchQuery) \<noteq> [] \<and> truthy (lastCaseId s))"

definition search_valid_D :: "page \<Rightarrow> bool" where
  "search_valid_D s = (trim (field_value s searchQuery) \<noteq> [] \<and> truthy (search_case_id_D s))"

definition explain_valid :: "page \<Rightarrow> bool" where
  "explain_valid s = truthy (lastCaseId s)"

definition mitre_valid :: "page \<Rightarrow> bool" where
  "mitre_valid s =
     (truthy (lastCaseId s) \<and> trim (textContent s explainResult) \<noteq> [] \<and>
      trim (textContent s explainResult) \<noteq> ''{}'')"

subsection \<open>The answer to the request of a handler\<close>

text \<open>
  For the page before and after a handler: the outcome the platform gives for the one
  request the handler has sent, if it has sent exactly one.
\<close>

definition answer :: "platform \<Rightarrow> page \<Rightarrow> page \<Rightarrow> fetch_outcome option" where
  "answer env s s' = (case requests (added s s') of [req] \<Rightarrow> Some (fetch env req) | _ \<Rightarrow> None)"

text \<open>
  The identifier an ingest hands back: the answer has a status from 200 to 299, and the
  decoded body and its \<^verbatim>\<open>case_id\<close> are both truthy.
\<close>

definition returned_case_id :: "platform \<Rightarrow> page \<Rightarrow> page \<Rightarrow> json option" where
  "returned_case_id env s s' =
     (case answer env s s' of
        Some (Responded st txt) \<Rightarrow> (if ok st then and_prop (decode env txt) ''case_id'' else None)
      | _ \<Rightarrow> None)"


text \<open>
  What \<^verbatim>\<open>callApi\<close> returns or throws for a request, apart from the trace: the lemma
  \<open>callApi_eq\<close> below shows that \<open>callApi\<close> is this result and one more event.
\<close>

definition api_result :: "platform \<Rightarrow> request \<Rightarrow> exn + json" where
  "api_result env req =
     (case fetch env req of
        FetchRejected msg \<Rightarrow> Inl (JsError msg)
      | TextRejected st msg \<Rightarrow> Inl (JsError msg)
      | Responded st txt \<Rightarrow>
          (if ok st then Inr (decode env txt) else Inl (ApiError st (decode env txt))))"

text \<open>
  The value of \<^verbatim>\<open>top_k\<close> in words: 5 for an empty field, else \<^verbatim>\<open>parseInt\<close> of the field.
\<close>

definition sent_top_k :: "nat \<Rightarrow> page \<Rightarrow> jsnum" where
  "sent_top_k radix s =
     (if field_value s searchTopK = [] then Fin 5 else parseInt (field_value s searchTopK) radix)"

subsection \<open>The request of each operation\<close>

text \<open>
  The request each handler hands to \<^verbatim>\<open>callApi\<close> (the file ingest: to \<^verbatim>\<open>fetch\<close>), read off
  the page before the click. The requests of the text ingest of scripts B, C and D are
  meant for a page that passes the validation, where the metadata have been parsed.
\<close>

definition ingest_request_A :: "platform \<Rightarrow> page \<Rightarrow> request" where
  "ingest_request_A env s =
     api_request ''/ingest''
       (post (JSON_stringify env
          (ingest_body_opt (trim (field_value s ingestText))
             (if trim (field_value s ingestMetadata) \<noteq> []
              then JSON_parse env (trim (field_value s ingestMetadata)) else None))))"

definition ingest_request :: "platform \<Rightarrow> page \<Rightarrow> request" where
  "ingest_request env s =
     api_request ''/ingest''
       (post (JSON_stringify env
          (ingest_body (trim (field_value s ingestText))
             (the (metadata_or_default env (trim (field_value s ingestMetadata)))))))"

definition ingest_request_D :: "platform \<Rightarrow> page \<Rightarrow> request" where
  "ingest_request_D env s =
     api_request ''/ingest''
       (post (JSON_stringify env
          (ingest_body_opt (trim (field_value s ingestText))
             (metadata_or_default env (trim (field_value s ingestMetadata))))))"

definition file_request :: "page \<Rightarrow> request" where
  "file_request s = ingest_file_request (hd (files s))"

definition search_request_A :: "platform \<Rightarrow> page \<Rightarrow> request" where
  "search_request_A env s =
     api_request ''/search''
       (post (JSON_stringify env
          (search_body_A (trim (field_value s searchQuery)) (sent_top_k 0 s)
             (checked s searchIncludeMeta))))"

text \<open>The search of scripts B, C and D, for the value it sends as \<^verbatim>\<open>case_id\<close>.\<close>

definition search_request :: "platform \<Rightarrow> json \<Rightarrow> page \<Rightarrow> request" where
  "search_request env case_id_v s =
     api_request ''/search''
       (post (JSON_stringify env
          (search_body case_id_v (trim (field_value s searchQuery)) (sent_top_k 10 s)
             (checked s searchIncludeMeta))))"

definition explain_request :: "platform \<Rightarrow> page \<Rightarrow> request" where
  "explain_request env s =
     api_request ''/explain_case'' (post (JSON_stringify env (JObj [(''case_id'', lastCaseId s)])))"

definition mitre_request :: "platform \<Rightarrow> page \<Rightarrow> request" where
  "mitre_request env s =
     api_request ''/mitre_tags''
       (post (JSON_stringify env
          (JObj [(''case_id'', lastCaseId s),
                 (''summary'', JStr (trim (textContent s explainResult)))])))"

text \<open>
  The order of one operation: after writes to the page, the trigger is disabled; after
  more writes, one request is sent; then at least one write renders the outcome, and the
  last event enables the trigger again.
\<close>

fun is_write :: "event \<Rightarrow> bool" where
  "is_write (SetText e t) = True"
| "is_write (SetValue e t) = True"
| "is_write ev = False"

definition sequential :: "elem \<Rightarrow> event list \<Rightarrow> bool" where
  "sequential btn es =
     (case dropWhile is_write es of
        SetDisabled b v # es1 \<Rightarrow>
          b = btn \<and> v \<and>
          (case dropWhile is_write es1 of
             Fetch req # es2 \<Rightarrow>
               takeWhile is_write es2 \<noteq> [] \<and> dropWhile is_write es2 = [SetDisabled btn False]
           | _ \<Rightarrow> False)
      | _ \<Rightarrow> False)"

text \<open>
  A failure of the API is shown: when the answer to the request of the handler has a
  status outside 200 to 299, the status element holds \<^verbatim>\<open>Error:\<close> and the status code, and
  the result element holds the printed body. With \<open>whole\<close> (script C prints
  \<^verbatim>\<open>err.body ?? err\<close>) a body \<^verbatim>\<open>null\<close> is printed inside the whole error object.
\<close>

definition error_shown :: "platform \<Rightarrow> bool \<Rightarrow> elem \<Rightarrow> elem \<Rightarrow> page \<Rightarrow> page \<Rightarrow> bool" where
  "error_shown env whole status result s s' =
     (case answer env s s' of
        Some (Responded st txt) \<Rightarrow>
          ok st \<or>
          (textContent s' status = ''Error: '' @ show_nat st \<and>
           textContent s' result =
             JSON_stringify2 env
               (if whole \<and> decode env txt = JNull then err_object (ApiError st JNull)
                else Val (decode env txt)))
      | _ \<Rightarrow> True)"

text \<open>
  The contract of one operation with a trigger, a validation, a status element and a
  result element: the events are in the order of \<open>sequential\<close> exactly when the page
  passes the validation; the trigger is enabled afterwards when it does, and no disabled
  flag changes when it does not; a failure of the API is shown.
\<close>

definition operation_contract ::
    "platform \<Rightarrow> elem \<Rightarrow> bool \<Rightarrow> bool \<Rightarrow> elem \<Rightarrow> elem \<Rightarrow> page \<Rightarrow> page \<Rightarrow> bool" where
  "operation_contract env btn valid whole status result s s' =
     (sequential btn (added s s') = valid \<and>
      disabled s' = (if valid then (disabled s)(btn := False) else disabled s) \<and>
      error_shown env whole status result s s')"

subsection \<open>Sample inputs\<close>

text \<open>
  A platform for the closed examples. Its \<open>JSON_parse\<close> is a table of the texts the
  examples use; every other text the examples hand to it is not JSON. Its serialisers
  print null, booleans, integers, strings of printable characters, arrays and objects
  as \<^verbatim>\<open>JSON.stringify\<close> does, without and with an indentation of two spaces.
\<close>

definition sample_parse :: "string \<Rightarrow> json option" where
  "sample_parse t =
     (if t = ''{\"case_id\": \"c-123\"}'' then Some (JObj [(''case_id'', JStr ''c-123'')])
      else if t = ''{\"case_id\": \"\"}'' then Some (JObj [(''case_id'', JStr '''')])
      else if t = ''{}'' then Some (JObj [])
      else if t = ''[]'' then Some (JArr [])
      else if t = ''{\"summary\": \"\"}'' then Some (JObj [(''summary'', JStr '''')])
      else if t = ''{\"summary\": \"Host compromised\"}''
      then Some (JObj [(''summary'', JStr ''Host compromised'')])
      else if t = ''{\"source\": \"lab\"}'' then Some (JObj [(''source'', JStr ''lab'')])
      else None)"

fun join :: "string \<Rightarrow> string list \<Rightarrow> string" where
  "join sep [] = []"
| "join sep [x] = x"
| "join sep (x # y # ys) = x @ sep @ join sep (y # ys)"

definition int_text :: "int \<Rightarrow> string" where
  "int_text i = (if i < 0 then ''-'' @ show_nat (nat (- i)) else show_nat (nat i))"

definition num_json :: "jsnum \<Rightarrow> string" where
  "num_json n = (case n of Fin r \<Rightarrow> int_text \<lfloor>r\<rfloor> | _ \<Rightarrow> ''null'')"

definition quote :: "string \<Rightarrow> string" where
  "quote t =
     [CHR 0x22] @
     concat (map (\<lambda>c. if c = CHR 0x22 \<or> c = CHR 0x5C then [CHR 0x5C, c] else [c]) t) @
     [CHR 0x22]"

fun sample_stringify :: "json \<Rightarrow> string" where
  "sample_stringify JNull = ''null''"
| "sample_stringify (JBool b) = (if b then ''true'' else ''false'')"
| "sample_stringify (JNum n) = num_json n"
| "sample_stringify (JStr t) = quote t"
| "sample_stringify (JArr xs) = ''['' @ join '','' (map sample_stringify xs) @ '']''"
| "sample_stringify (JObj kvs) =
     ''{'' @ join '','' (map (\<lambda>kv. quote (fst kv) @ '':'' @ sample_stringify (snd kv)) kvs) @ ''}''"

fun sample_indent :: "nat \<Rightarrow> json \<Rightarrow> string" where
  "sample_indent n (JArr xs) =
     (if xs = [] then ''[]''
      else ''['' @ [CHR 0x0A] @
           join ('','' @ [CHR 0x0A])
             (map (\<lambda>x. replicate (n + 2) CHR '' '' @ sample_indent (n + 2) x) xs) @
           [CHR 0x0A] @ replicate n CHR '' '' @ '']'')"
| "sample_indent n (JObj kvs) =
     (if kvs = [] then ''{}''
      else ''{'' @ [CHR 0x0A] @
           join ('','' @ [CHR 0x0A])
             (map (\<lambda>kv. replicate (n + 2) CHR '' '' @ quote (fst kv) @ '': '' @
                          sample_indent (n + 2) (snd kv)) kvs) @
           [CHR 0x0A] @ replicate n CHR '' '' @ ''}'')"
| "sample_indent n v = sample_stringify v"

definition sample_stringify2 :: "jsval \<Rightarrow> string" where
  "sample_stringify2 v = (case v of Val j \<Rightarrow> sample_indent 0 j | _ \<Rightarrow> ''{}'')"

fun sample_ToString :: "json \<Rightarrow> string" where
  "sample_ToString JNull = ''null''"
| "sample_ToString (JBool b) = (if b then ''true'' else ''false'')"
| "sample_ToString (JNum n) =
     (case n of Fin r \<Rightarrow> int_text \<lfloor>r\<rfloor> | NaN \<Rightarrow> ''NaN''
      | PosInf \<Rightarrow> ''Infinity'' | NegInf \<Rightarrow> ''-Infinity'')"
| "sample_ToString (JStr t) = t"
| "sample_ToString (JArr xs) =
     join '','' (map (\<lambda>x. if x = JNull then [] else sample_ToString x) xs)"
| "sample_ToString (JObj kvs) = ''[object Object]''"

definition sample_platform :: "(request \<Rightarrow> fetch_outcome) \<Rightarrow> platform" where
  "sample_platform net =
     \<lparr>fetch = net,
      JSON_parse = sample_parse,
      JSON_stringify = sample_stringify,
      JSON_stringify2 = sample_stringify2,
      ToString = sample_ToString,
      clipboard_writeText = Some (\<lambda>t. True),
      execCommand_copy = Inr True\<rparr>"

text \<open>A page with empty fields, no file, no \<^verbatim>\<open>caseId\<close> field and an empty trace.\<close>

definition blank_page :: page where
  "blank_page =
     \<lparr>textContent = (\<lambda>e. ''''), field_value = (\<lambda>e. ''''), checked = (\<lambda>e. False),
      disabled = (\<lambda>e. False), files = [], has_caseId = False, nodes = [],
      caseList_onclick = False, lastCaseId = JStr '''', events = []\<rparr>"

text \<open>The page after the user has typed the given texts into the given fields.\<close>

definition typed :: "(elem \<times> string) list \<Rightarrow> page \<Rightarrow> page" where
  "typed kvs s = fold (\<lambda>kv. user_input (TypeInto (fst kv) (snd kv))) kvs s"

text \<open>A network that gives the same outcome to every request, and one that answers by URL.\<close>

definition always :: "fetch_outcome \<Rightarrow> request \<Rightarrow> fetch_outcome" where
  "always r req = r"

definition by_url :: "(string \<times> fetch_outcome) list \<Rightarrow> request \<Rightarrow> fetch_outcome" where
  "by_url tab req =
     (case map_of tab (req_url req) of Some r \<Rightarrow> r | None \<Rightarrow> FetchRejected ''Failed to fetch'')"

text \<open>The page of the examples once an identifier is stored.\<close>

definition with_case :: "string \<Rightarrow> page \<Rightarrow> page" where
  "with_case c s = s\<lparr>lastCaseId := JStr c\<rparr>"

text \<open>The page of the examples when it has the field \<^verbatim>\<open>caseId\<close> of script D.\<close>

definition with_case_field :: "page \<Rightarrow> page" where
  "with_case_field s = s\<lparr>has_caseId := True\<rparr>"

text \<open>
  A page on which every operation passes its validation: a text to ingest, a file, a query,
  a stored identifier and a summary in the report region.
\<close>

definition busy_page :: page where
  "busy_page =
     with_case ''c-123''
       (user_input (ChooseFiles [(''auth.log'', ''Failed password for root'')])
          (typed [(ingestText, ''evidence log''), (searchQuery, ''malware'')]
             (blank_page\<lparr>textContent := (textContent blank_page)(explainResult := ''Host compromised'')\<rparr>)))"

text \<open>A platform whose network answers every request with the status 500 and the text \<^verbatim>\<open>boom\<close>.\<close>

definition failing_platform :: platform where
  "failing_platform = sample_platform (always (Responded 500 ''boom''))"

text \<open>The POST request with a JSON body, as the examples print it.\<close>

definition json_post :: "string \<Rightarrow> string \<Rightarrow> request" where
  "json_post url b =
     \<lparr>req_url = url, req_method = ''POST'',
      req_headers = [(''Content-Type'', ''application/json'')],
      req_body = Some (StringBody b)\<rparr>"


section \<open>Properties\<close>

subsection \<open>The primitives\<close>

lemma events_emit [simp]: "events (emit e s) = events s @ [e]"
  by (simp add: emit_def)

lemma emit_fields [simp]:
  "textContent (emit e s) = textContent s" "field_value (emit e s) = field_value s"
  "checked (emit e s) = checked s" "disabled (emit e s) = disabled s"
  "files (emit e s) = files s" "has_caseId (emit e s) = has_caseId s"
  "nodes (emit e s) = nodes s" "caseList_onclick (emit e s) = caseList_onclick s"
  "lastCaseId (emit e s) = lastCaseId s"
  by (simp_all add: emit_def)

lemma set_text_fields [simp]:
  "events (set_text e t s) = events s @ [SetText e t]"
  "textContent (set_text e t s) = (textContent s)(e := t)"
  "field_value (set_text e t s) = field_value s"
  "checked (set_text e t s) = checked s" "disabled (set_text e t s) = disabled s"
  "files (set_text e t s) = files s" "has_caseId (set_text e t s) = has_caseId s"
  "nodes (set_text e t s) = nodes s" "caseList_onclick (set_text e t s) = caseList_onclick s"
  "lastCaseId (set_text e t s) = lastCaseId s"
  by (simp_all add: set_text_def)

lemma set_value_fields [simp]:
  "events (set_value e t s) = events s @ [SetValue e t]"
  "textContent (set_value e t s) = textContent s"
  "field_value (set_value e t s) = (field_value s)(e := t)"
  "checked (set_value e t s) = checked s" "disabled (set_value e t s) = disabled s"
  "files (set_value e t s) = files s" "has_caseId (set_value e t s) = has_caseId s"
  "nodes (set_value e t s) = nodes s" "caseList_onclick (set_value e t s) = caseList_onclick s"
  "lastCaseId (set_value e t s) = lastCaseId s"
  by (simp_all add: set_value_def)

lemma set_disabled_fields [simp]:
  "events (set_disabled e b s) = events s @ [SetDisabled e b]"
  "textContent (set_disabled e b s) = textContent s"
  "field_value (set_disabled e b s) = field_value s"
  "checked (set_disabled e b s) = checked s" "disabled (set_disabled e b s) = (disabled s)(e := b)"
  "files (set_disabled e b s) = files s" "has_caseId (set_disabled e b s) = has_caseId s"
  "nodes (set_disabled e b s) = nodes s"
  "caseList_onclick (set_disabled e b s) = caseList_onclick s"
  "lastCaseId (set_disabled e b s) = lastCaseId s"
  by (simp_all add: set_disabled_def)

lemma set_nodes_fields [simp]:
  "events (set_nodes ns s) = events s @ [SetNodes caseListDisplay ns]"
  "textContent (set_nodes ns s) = textContent s"
  "field_value (set_nodes ns s) = field_value s"
  "checked (set_nodes ns s) = checked s" "disabled (set_nodes ns s) = disabled s"
  "files (set_nodes ns s) = files s" "has_caseId (set_nodes ns s) = has_caseId s"
  "nodes (set_nodes ns s) = ns"
  "caseList_onclick (set_nodes ns s) = caseList_onclick s"
  "lastCaseId (set_nodes ns s) = lastCaseId s"
  by (simp_all add: set_nodes_def)

lemma callApi_eq:
  "callApi env path opts s =
     (api_result env (api_request path opts), emit (Fetch (api_request path opts)) s)"
  by (simp add: callApi_def api_result_def Let_def split: fetch_outcome.splits)

lemma added_append [simp]: "events s' = events s @ es \<Longrightarrow> added s s' = es"
  by (simp add: added_def)

lemmas catch_defs = catch_A_def catch_B_def catch_C_def

lemma parseInt_5 [simp]: "parseInt ''5'' 10 = Fin 5" "parseInt ''5'' 0 = Fin 5"
  by code_simp+

lemma parseInt_top_k_text [simp]:
  "parseInt (top_k_text s) 10 = sent_top_k 10 s"
  "parseInt (top_k_text s) 0 = sent_top_k 0 s"
  by (simp_all add: top_k_text_def sent_top_k_def)

subsection \<open>Handlers that stop at their validation\<close>

lemma ingest_blocked:
  assumes "\<not> ingest_valid env s"
  shows "added s (ingestBtn_click_A env s) =
           [SetText ingestStatus
              (if trim (field_value s ingestText) = [] then ''Enter text.''
               else ''Invalid metadata JSON.'')]"
    and "added s (ingestBtn_click_B env s) =
           [SetText ingestStatus
              (if trim (field_value s ingestText) = [] then ''Enter text.''
               else ''Invalid metadata JSON.'')]"
    and "added s (ingestBtn_click_C env s) =
           [SetText ingestStatus
              (if trim (field_value s ingestText) = [] then ''Enter text.''
               else ''Invalid metadata JSON.'')]"
    and "added s (ingestBtn_click_D env s) =
           [SetText ingestStatus
              (if trim (field_value s ingestText) = [] then ''Enter text.''
               else ''Invalid metadata JSON.'')]"
  using assms
  by (auto simp add: ingest_valid_def ingestBtn_click_A_def ingestBtn_click_B_def
      ingestBtn_click_C_def ingestBtn_click_D_def metadata_or_default_def Let_def)

lemma file_blocked:
  "files s = [] \<Longrightarrow>
   added s (ingestFileBtn_click_C env s) =
     [SetText ingestFileStatus '''', SetText ingestFileResult ''{}'',
      SetText ingestFileStatus ''Choose a file first.'']"
  by (simp add: ingestFileBtn_click_C_def Let_def)

lemma search_blocked_query:
  assumes "trim (field_value s searchQuery) = []"
  shows "added s (searchBtn_click_A env s) = [SetText searchStatus ''Enter query.'']"
    and "added s (searchBtn_click_B env s) = [SetText searchStatus ''Enter query.'']"
    and "added s (searchBtn_click_C env s) = [SetText searchStatus ''Enter query.'']"
    and "added s (searchBtn_click_D env s) = [SetText searchStatus ''Enter query.'']"
  using assms
  by (simp_all add: searchBtn_click_A_def searchBtn_click_B_def searchBtn_click_C_def
      searchBtn_click_D_def Let_def)

lemma search_blocked_case:
  "trim (field_value s searchQuery) \<noteq> [] \<Longrightarrow> \<not> truthy (lastCaseId s) \<Longrightarrow>
   added s (searchBtn_click_B env s) =
     [SetText searchStatus ''Missing case_id: ingest first.'']"
  "trim (field_value s searchQuery) \<noteq> [] \<Longrightarrow> \<not> truthy (lastCaseId s) \<Longrightarrow>
   added s (searchBtn_click_C env s) =
     [SetText searchStatus ''Missing case_id: ingest first (text or file).'']"
  "trim (field_value s searchQuery) \<noteq> [] \<Longrightarrow> \<not> truthy (search_case_id_D s) \<Longrightarrow>
   added s (searchBtn_click_D env s) =
     [SetText searchStatus ''Missing case_id: ingest text first or enter a case id.'']"
  by (simp_all add: searchBtn_click_B_def searchBtn_click_C_def searchBtn_click_D_def Let_def)

lemmas ingest_defs = ingestBtn_click_A_def ingestBtn_click_B_def ingestBtn_click_C_def
  ingestBtn_click_D_def metadata_or_default_def ingest_valid_def
  ingest_request_A_def ingest_request_def ingest_request_D_def
lemmas search_defs = searchBtn_click_A_def searchBtn_click_B_def searchBtn_click_C_def
  searchBtn_click_D_def search_valid_A_def search_valid_def search_valid_D_def
  search_request_A_def search_request_def
lemmas file_defs = ingestFileBtn_click_C_def file_valid_def file_request_def
lemmas explain_defs = explainCaseBtn_click_C_def explain_valid_def explain_request_def
lemmas mitre_defs = mitreExtractBtn_click_C_def mitre_valid_def mitre_request_def

lemma requests_append [simp]: "requests (xs @ ys) = requests xs @ requests ys"
  by (induction xs rule: requests.induct) simp_all

subsection \<open>The requests a handler sends\<close>

lemma ingest_requests:
  "requests (added s (ingestBtn_click_A env s)) =
     (if ingest_valid env s then [ingest_request_A env s] else [])"
  "requests (added s (ingestBtn_click_B env s)) =
     (if ingest_valid env s then [ingest_request env s] else [])"
  "requests (added s (ingestBtn_click_C env s)) =
     (if ingest_valid env s then [ingest_request env s] else [])"
  "requests (added s (ingestBtn_click_D env s)) =
     (if ingest_valid env s then [ingest_request_D env s] else [])"
  by (auto simp add: ingest_defs Let_def callApi_eq catch_defs added_def
      split: sum.split option.split)

lemma file_requests:
  "requests (added s (ingestFileBtn_click_C env s)) =
     (if file_valid s then [file_request s] else [])"
  by (simp add: file_defs Let_def catch_defs added_def
      split: sum.split option.split list.split fetch_outcome.split)

lemma search_requests_all:
  "requests (added s (searchBtn_click_A env s)) =
     (if search_valid_A s then [search_request_A env s] else [])"
  "requests (added s (searchBtn_click_B env s)) =
     (if search_valid s then [search_request env (lastCaseId s) s] else [])"
  "requests (added s (searchBtn_click_C env s)) =
     (if search_valid s then [search_request env (lastCaseId s) s] else [])"
  "requests (added s (searchBtn_click_D env s)) =
     (if search_valid_D s then [search_request env (search_case_id_D s) s] else [])"
  by (simp_all add: search_defs Let_def callApi_eq catch_defs added_def split: sum.split)

lemma explain_requests:
  "requests (added s (explainCaseBtn_click_C env s)) =
     (if explain_valid s then [explain_request env s] else [])"
  by (simp add: explain_defs Let_def callApi_eq catch_defs added_def
      split: sum.split option.split)

lemma mitre_requests:
  "requests (added s (mitreExtractBtn_click_C env s)) =
     (if mitre_valid s then [mitre_request env s] else [])"
  by (simp add: mitre_defs Let_def callApi_eq catch_defs added_def
      split: sum.split option.split)

subsection \<open>The variable \<^verbatim>\<open>lastCaseId\<close> after each handler\<close>

lemma ingest_last:
  "lastCaseId (ingestBtn_click_B env s) =
     (if ingest_valid env s
      then (case api_result env (ingest_request env s) of
              Inr res \<Rightarrow> (case and_prop res ''case_id'' of Some c \<Rightarrow> c | None \<Rightarrow> lastCaseId s)
            | Inl e \<Rightarrow> lastCaseId s)
      else lastCaseId s)"
  "lastCaseId (ingestBtn_click_C env s) =
     (if ingest_valid env s
      then (case api_result env (ingest_request env s) of
              Inr res \<Rightarrow> (case and_prop res ''case_id'' of Some c \<Rightarrow> c | None \<Rightarrow> lastCaseId s)
            | Inl e \<Rightarrow> lastCaseId s)
      else lastCaseId s)"
  "lastCaseId (ingestBtn_click_D env s) =
     (if ingest_valid env s
      then (case api_result env (ingest_request_D env s) of
              Inr res \<Rightarrow> (case and_prop res ''case_id'' of Some c \<Rightarrow> c | None \<Rightarrow> lastCaseId s)
            | Inl e \<Rightarrow> lastCaseId s)
      else lastCaseId s)"
  by (auto simp add: ingest_defs Let_def callApi_eq catch_defs split: sum.split option.split)

lemma file_last:
  "lastCaseId (ingestFileBtn_click_C env s) =
     (if file_valid s
      then (case api_result env (file_request s) of
              Inr res \<Rightarrow> (case and_prop res ''case_id'' of Some c \<Rightarrow> c | None \<Rightarrow> lastCaseId s)
            | Inl e \<Rightarrow> lastCaseId s)
      else lastCaseId s)"
  by (auto simp add: file_defs Let_def catch_defs api_result_def
      split: sum.split option.split list.split fetch_outcome.split)

lemma returned_eq:
  "requests (added s s') = (if v then [req] else []) \<Longrightarrow>
   returned_case_id env s s' =
     (if v then (case api_result env req of
                   Inr res \<Rightarrow> and_prop res ''case_id'' | Inl e \<Rightarrow> None)
      else None)"
  by (simp add: returned_case_id_def answer_def api_result_def split: fetch_outcome.split)

lemma ingest_lastCaseId:
  "lastCaseId (ingestBtn_click_A env s) = lastCaseId s"
  "lastCaseId (ingestBtn_click_B env s) =
     (case returned_case_id env s (ingestBtn_click_B env s) of
        Some c \<Rightarrow> c | None \<Rightarrow> lastCaseId s)"
  "lastCaseId (ingestBtn_click_C env s) =
     (case returned_case_id env s (ingestBtn_click_C env s) of
        Some c \<Rightarrow> c | None \<Rightarrow> lastCaseId s)"
  "lastCaseId (ingestBtn_click_D env s) =
     (case returned_case_id env s (ingestBtn_click_D env s) of
        Some c \<Rightarrow> c | None \<Rightarrow> lastCaseId s)"
proof -
  show "lastCaseId (ingestBtn_click_A env s) = lastCaseId s"
    by (simp add: ingestBtn_click_A_def Let_def callApi_eq catch_defs split: sum.split)
  show "lastCaseId (ingestBtn_click_B env s) =
     (case returned_case_id env s (ingestBtn_click_B env s) of
        Some c \<Rightarrow> c | None \<Rightarrow> lastCaseId s)"
    by (simp add: returned_eq [OF ingest_requests(2)] ingest_last split: sum.split)
  show "lastCaseId (ingestBtn_click_C env s) =
     (case returned_case_id env s (ingestBtn_click_C env s) of
        Some c \<Rightarrow> c | None \<Rightarrow> lastCaseId s)"
    by (simp add: returned_eq [OF ingest_requests(3)] ingest_last split: sum.split)
  show "lastCaseId (ingestBtn_click_D env s) =
     (case returned_case_id env s (ingestBtn_click_D env s) of
        Some c \<Rightarrow> c | None \<Rightarrow> lastCaseId s)"
    by (simp add: returned_eq [OF ingest_requests(4)] ingest_last split: sum.split)
qed

lemma ingestFile_lastCaseId:
  "lastCaseId (ingestFileBtn_click_C env s) =
     (case returned_case_id env s (ingestFileBtn_click_C env s) of
        Some c \<Rightarrow> c | None \<Rightarrow> lastCaseId s)"
  by (simp add: returned_eq [OF file_requests] file_last split: sum.split)

lemma search_lastCaseId:
  "lastCaseId (searchBtn_click_A env s) = lastCaseId s"
  "lastCaseId (searchBtn_click_B env s) = lastCaseId s"
  "lastCaseId (searchBtn_click_C env s) = lastCaseId s"
  "lastCaseId (searchBtn_click_D env s) = lastCaseId s"
  by (simp_all add: search_defs Let_def callApi_eq catch_defs split: sum.split)

lemma clear_lastCaseId:
  "lastCaseId (ingestClearBtn_click s) = lastCaseId s"
  "lastCaseId (searchClearBtn_click s) = lastCaseId s"
  by (simp_all add: ingestClearBtn_click_def searchClearBtn_click_def Let_def)

lemma append_items_lastCaseId:
  "lastCaseId (snd (append_items env cs s)) = lastCaseId s"
  by (induction cs arbitrary: s) (simp_all split: sum.split)

lemma viewer_lastCaseId:
  "lastCaseId (loadCasesBtn_click_B env s) = lastCaseId s"
  "lastCaseId (caseList_click_B env s) = lastCaseId s"
  "lastCaseId (loadCasesBtn_click_C env s) = lastCaseId s"
  "lastCaseId (li_click_C env i s) = lastCaseId s"
proof -
  show "lastCaseId (loadCasesBtn_click_B env s) = lastCaseId s"
    by (simp add: loadCasesBtn_click_B_def Let_def callApi_eq split: sum.split)
  show "lastCaseId (caseList_click_B env s) = lastCaseId s"
    by (simp add: caseList_click_B_def Let_def callApi_eq split: sum.split option.split)
  show "lastCaseId (li_click_C env i s) = lastCaseId s"
    by (simp add: li_click_C_def Let_def callApi_eq split: sum.split option.split node.split)
  have *: "lastCaseId (snd (append_items env cs t)) = lastCaseId t" for cs t
    by (rule append_items_lastCaseId)
  show "lastCaseId (loadCasesBtn_click_C env s) = lastCaseId s"
    using * by (simp add: loadCasesBtn_click_C_def Let_def callApi_eq case_prod_beta
        split: sum.split option.split)
qed

lemma export_lastCaseId:
  "lastCaseId (explainCaseBtn_click_C env s) = lastCaseId s"
  "lastCaseId (copyExplainBtn_click_C env s) = lastCaseId s"
  "lastCaseId (downloadExplainBtn_click_C s) = lastCaseId s"
  "lastCaseId (mitreExtractBtn_click_C env s) = lastCaseId s"
  by (simp_all add: explainCaseBtn_click_C_def copyExplainBtn_click_C_def
      downloadExplainBtn_click_C_def mitreExtractBtn_click_C_def Let_def callApi_eq catch_defs
      split: sum.split option.split)

lemma user_input_lastCaseId: "lastCaseId (user_input a s) = lastCaseId s"
  by (simp add: user_input_def split: action.split)

subsection \<open>The order of the events of one operation\<close>

lemma ingest_sequential:
  assumes "ingest_valid env s"
  shows "sequential ingestBtn (added s (ingestBtn_click_A env s))"
    and "sequential ingestBtn (added s (ingestBtn_click_B env s))"
    and "sequential ingestBtn (added s (ingestBtn_click_C env s))"
    and "sequential ingestBtn (added s (ingestBtn_click_D env s))"
  using assms
  by (auto simp add: ingest_defs Let_def callApi_eq catch_defs added_def sequential_def
      split: sum.split option.split)

lemma file_sequential:
  "file_valid s \<Longrightarrow> sequential ingestFileBtn (added s (ingestFileBtn_click_C env s))"
  by (auto simp add: file_defs Let_def catch_defs added_def sequential_def
      split: sum.split option.split list.split fetch_outcome.split)

lemma search_sequential:
  "search_valid_A s \<Longrightarrow> sequential searchBtn (added s (searchBtn_click_A env s))"
  "search_valid s \<Longrightarrow> sequential searchBtn (added s (searchBtn_click_B env s))"
  "search_valid s \<Longrightarrow> sequential searchBtn (added s (searchBtn_click_C env s))"
  "search_valid_D s \<Longrightarrow> sequential searchBtn (added s (searchBtn_click_D env s))"
  by (simp_all add: search_defs Let_def callApi_eq catch_defs added_def sequential_def
      split: sum.split)

lemma explain_sequential:
  "explain_valid s \<Longrightarrow> sequential explainCaseBtn (added s (explainCaseBtn_click_C env s))"
  by (simp add: explain_defs Let_def callApi_eq catch_defs added_def sequential_def
      split: sum.split option.split)

lemma mitre_sequential:
  "mitre_valid s \<Longrightarrow> sequential mitreExtractBtn (added s (mitreExtractBtn_click_C env s))"
  by (simp add: mitre_defs Let_def callApi_eq catch_defs added_def sequential_def
      split: sum.split option.split)

subsection \<open>What is shown after a failure\<close>

lemma catch_texts:
  "status \<noteq> result \<Longrightarrow>
   textContent (catch_A env status result err t) status = error_line_A err \<and>
   textContent (catch_A env status result err t) result = nullable (pretty env (err_body err))"
  "status \<noteq> result \<Longrightarrow>
   textContent (catch_B env status result err t) status = error_line err \<and>
   textContent (catch_B env status result err t) result = nullable (pretty env (err_body err))"
  "status \<noteq> result \<Longrightarrow>
   textContent (catch_C env status result err t) status = error_line err \<and>
   textContent (catch_C env status result err t) result =
     nullable (pretty env (err_body_or_err err))"
  by (simp_all add: catch_defs Let_def)

lemma api_error_texts:
  "error_line_A (ApiError st b) = ''Error: '' @ show_nat st"
  "error_line (ApiError st b) = ''Error: '' @ show_nat st"
  "nullable (pretty env (err_body (ApiError st b))) = JSON_stringify2 env (Val b)"
  "nullable (pretty env (err_body_or_err (ApiError st b))) =
     JSON_stringify2 env (if b = JNull then err_object (ApiError st JNull) else Val b)"
  by (simp_all add: error_line_A_def error_line_def err_status_def err_body_def
      err_body_or_err_def err_object_def pretty_def nullable_def split: json.split)

lemma error_shown_eq:
  "requests (added s s') = (if v then [req] else []) \<Longrightarrow>
   error_shown env whole status result s s' =
     (\<forall>st b. v \<and> api_result env req = Inl (ApiError st b) \<longrightarrow>
        textContent s' status = ''Error: '' @ show_nat st \<and>
        textContent s' result =
          JSON_stringify2 env (if whole \<and> b = JNull then err_object (ApiError st JNull) else Val b))"
  by (auto simp add: error_shown_def answer_def api_result_def split: fetch_outcome.split)

lemma ingest_failure:
  assumes "ingest_valid env s"
  shows "api_result env (ingest_request_A env s) = Inl err \<Longrightarrow>
      ingestBtn_click_A env s =
        set_disabled ingestBtn False (catch_A env ingestStatus ingestResult err
          (emit (Fetch (ingest_request_A env s)) (set_text ingestResult ''{}''
            (set_text ingestStatus ''Ingesting...'' (set_disabled ingestBtn True s)))))"
    and "api_result env (ingest_request env s) = Inl err \<Longrightarrow>
      ingestBtn_click_B env s =
        set_disabled ingestBtn False (catch_B env ingestStatus ingestResult err
          (emit (Fetch (ingest_request env s)) (set_text ingestResult ''{}''
            (set_text ingestStatus ''Ingesting...'' (set_disabled ingestBtn True s)))))"
    and "api_result env (ingest_request env s) = Inl err \<Longrightarrow>
      ingestBtn_click_C env s =
        set_disabled ingestBtn False (catch_C env ingestStatus ingestResult err
          (emit (Fetch (ingest_request env s)) (set_text ingestResult ''{}''
            (set_text ingestStatus ''Ingesting...'' (set_disabled ingestBtn True s)))))"
    and "api_result env (ingest_request_D env s) = Inl err \<Longrightarrow>
      ingestBtn_click_D env s =
        set_disabled ingestBtn False (catch_B env ingestStatus ingestResult err
          (emit (Fetch (ingest_request_D env s)) (set_text ingestResult ''{}''
            (set_text ingestStatus ''Ingesting...'' (set_disabled ingestBtn True s)))))"
  using assms
  by (auto simp add: ingest_defs Let_def callApi_eq split: option.split)

lemma file_failure:
  "file_valid s \<Longrightarrow> api_result env (file_request s) = Inl err \<Longrightarrow>
   ingestFileBtn_click_C env s =
     set_disabled ingestFileBtn False (catch_C env ingestFileStatus ingestFileResult err
       (emit (Fetch (file_request s))
         (set_text ingestFileStatus ''Uploading & ingesting file...''
           (set_disabled ingestFileBtn True
             (set_text ingestFileResult ''{}'' (set_text ingestFileStatus '''' s))))))"
  by (auto simp add: file_defs Let_def api_result_def split: list.split fetch_outcome.splits if_splits)

lemma search_failure:
  "search_valid_A s \<Longrightarrow> api_result env (search_request_A env s) = Inl err \<Longrightarrow>
   searchBtn_click_A env s =
     set_disabled searchBtn False (catch_A env searchStatus searchResult err
       (emit (Fetch (search_request_A env s)) (set_text searchResult ''{}''
         (set_text searchStatus ''Searching...'' (set_disabled searchBtn True s)))))"
  "search_valid s \<Longrightarrow> api_result env (search_request env (lastCaseId s) s) = Inl err \<Longrightarrow>
   searchBtn_click_B env s =
     set_disabled searchBtn False (catch_B env searchStatus searchResult err
       (emit (Fetch (search_request env (lastCaseId s) s)) (set_text searchResult ''{}''
         (set_text searchStatus ''Searching...'' (set_disabled searchBtn True s)))))"
  "search_valid s \<Longrightarrow> api_result env (search_request env (lastCaseId s) s) = Inl err \<Longrightarrow>
   searchBtn_click_C env s =
     set_disabled searchBtn False (catch_C env searchStatus searchResult err
       (emit (Fetch (search_request env (lastCaseId s) s)) (set_text searchResult ''{}''
         (set_text searchStatus ''Searching...'' (set_disabled searchBtn True s)))))"
  "search_valid_D s \<Longrightarrow> api_result env (search_request env (search_case_id_D s) s) = Inl err \<Longrightarrow>
   searchBtn_click_D env s =
     set_disabled searchBtn False (catch_B env searchStatus searchResult err
       (emit (Fetch (search_request env (search_case_id_D s) s)) (set_text searchResult ''{}''
         (set_text searchStatus ''Searching...'' (set_disabled searchBtn True s)))))"
  by (simp_all add: search_defs Let_def callApi_eq)

lemma explain_failure:
  "explain_valid s \<Longrightarrow> api_result env (explain_request env s) = Inl err \<Longrightarrow>
   explainCaseBtn_click_C env s =
     set_disabled explainCaseBtn False (catch_C env explainStatus explainResult err
       (emit (Fetch (explain_request env s)) (set_text explainResult ''{}''
         (set_text explainStatus ''Summarizing case...'' (set_disabled explainCaseBtn True s)))))"
  by (simp add: explain_defs Let_def callApi_eq)

lemma mitre_failure:
  "mitre_valid s \<Longrightarrow> api_result env (mitre_request env s) = Inl err \<Longrightarrow>
   mitreExtractBtn_click_C env s =
     set_disabled mitreExtractBtn False (catch_C env mitreStatus mitreResult err
       (emit (Fetch (mitre_request env s)) (set_text mitreResult ''{}''
         (set_text mitreStatus ''Extracting MITRE techniques...''
           (set_disabled mitreExtractBtn True s)))))"
  by (simp add: mitre_defs Let_def callApi_eq)

lemma ingest_error_shown:
  "error_shown env False ingestStatus ingestResult s (ingestBtn_click_A env s)"
  "error_shown env False ingestStatus ingestResult s (ingestBtn_click_B env s)"
  "error_shown env True ingestStatus ingestResult s (ingestBtn_click_C env s)"
  "error_shown env False ingestStatus ingestResult s (ingestBtn_click_D env s)"
  by (simp_all add: error_shown_eq [OF ingest_requests(1)] error_shown_eq [OF ingest_requests(2)]
      error_shown_eq [OF ingest_requests(3)] error_shown_eq [OF ingest_requests(4)]
      ingest_failure catch_texts api_error_texts)

lemma file_error_shown:
  "error_shown env True ingestFileStatus ingestFileResult s (ingestFileBtn_click_C env s)"
  by (simp add: error_shown_eq [OF file_requests] file_failure catch_texts api_error_texts)

lemma search_error_shown:
  "error_shown env False searchStatus searchResult s (searchBtn_click_A env s)"
  "error_shown env False searchStatus searchResult s (searchBtn_click_B env s)"
  "error_shown env True searchStatus searchResult s (searchBtn_click_C env s)"
  "error_shown env False searchStatus searchResult s (searchBtn_click_D env s)"
  by (simp_all add: error_shown_eq [OF search_requests_all(1)]
      error_shown_eq [OF search_requests_all(2)] error_shown_eq [OF search_requests_all(3)]
      error_shown_eq [OF search_requests_all(4)] search_failure catch_texts api_error_texts)

lemma explain_error_shown:
  "error_shown env True explainStatus explainResult s (explainCaseBtn_click_C env s)"
  by (simp add: error_shown_eq [OF explain_requests] explain_failure catch_texts api_error_texts)

lemma mitre_error_shown:
  "error_shown env True mitreStatus mitreResult s (mitreExtractBtn_click_C env s)"
  by (simp add: error_shown_eq [OF mitre_requests] mitre_failure catch_texts api_error_texts)

subsection \<open>The explain control\<close>

lemma explain_blocked:
  "\<not> truthy (lastCaseId s) \<Longrightarrow>
   added s (explainCaseBtn_click_C env s) = [SetText explainStatus ''No case selected.'']"
  by (simp add: explainCaseBtn_click_C_def)

lemma explain_success:
  assumes "explain_valid s" and "api_result env (explain_request env s) = Inr res"
    and "res \<noteq> JNull"
  shows "textContent (explainCaseBtn_click_C env s) explainStatus = ''AI summary ready.''"
    and "textContent (explainCaseBtn_click_C env s) explainResult =
           (case get_prop res ''summary'' of
              Inr (Some v) \<Rightarrow> (if truthy v then js_string env v else JSON_stringify2 env (Val res))
            | _ \<Rightarrow> JSON_stringify2 env (Val res))"
  using assms
  by (cases res; simp add: explain_defs Let_def callApi_eq pretty_def nullable_def
      split: option.split)+

subsection \<open>The contract of the operations\<close>

lemma mitre_blocked:
  "\<not> mitre_valid s \<Longrightarrow>
   added s (mitreExtractBtn_click_C env s) =
     [SetText mitreStatus
        (if \<not> truthy (lastCaseId s) then ''No case selected.''
         else ''No summary yet. Run Explain Case first.'')]"
  by (auto simp add: mitre_defs Let_def)

lemma blocked_not_sequential:
  "\<not> sequential btn [SetText e t]"
  "\<not> sequential btn [SetText e t, SetText e' t', SetText e'' t'']"
  by (simp_all add: sequential_def)

lemma sequential_iff:
  "sequential ingestBtn (added s (ingestBtn_click_A env s)) = ingest_valid env s"
  "sequential ingestBtn (added s (ingestBtn_click_B env s)) = ingest_valid env s"
  "sequential ingestBtn (added s (ingestBtn_click_C env s)) = ingest_valid env s"
  "sequential ingestBtn (added s (ingestBtn_click_D env s)) = ingest_valid env s"
  "sequential ingestFileBtn (added s (ingestFileBtn_click_C env s)) = file_valid s"
  "sequential searchBtn (added s (searchBtn_click_A env s)) = search_valid_A s"
  "sequential searchBtn (added s (searchBtn_click_B env s)) = search_valid s"
  "sequential searchBtn (added s (searchBtn_click_C env s)) = search_valid s"
  "sequential searchBtn (added s (searchBtn_click_D env s)) = search_valid_D s"
  "sequential explainCaseBtn (added s (explainCaseBtn_click_C env s)) = explain_valid s"
  "sequential mitreExtractBtn (added s (mitreExtractBtn_click_C env s)) = mitre_valid s"
proof -
  show "sequential ingestBtn (added s (ingestBtn_click_A env s)) = ingest_valid env s"
    "sequential ingestBtn (added s (ingestBtn_click_B env s)) = ingest_valid env s"
    "sequential ingestBtn (added s (ingestBtn_click_C env s)) = ingest_valid env s"
    "sequential ingestBtn (added s (ingestBtn_click_D env s)) = ingest_valid env s"
    by (cases "ingest_valid env s";
        simp add: ingest_sequential ingest_blocked blocked_not_sequential)+
  show "sequential ingestFileBtn (added s (ingestFileBtn_click_C env s)) = file_valid s"
    by (cases "file_valid s")
       (simp_all add: file_sequential file_blocked blocked_not_sequential file_valid_def)
  show "sequential searchBtn (added s (searchBtn_click_A env s)) = search_valid_A s"
    by (cases "search_valid_A s")
       (simp_all add: search_sequential search_blocked_query blocked_not_sequential
          search_valid_A_def)
  show "sequential searchBtn (added s (searchBtn_click_B env s)) = search_valid s"
    "sequential searchBtn (added s (searchBtn_click_C env s)) = search_valid s"
  proof -
    consider "search_valid s" | "trim (field_value s searchQuery) = []"
      | "trim (field_value s searchQuery) \<noteq> []" "\<not> truthy (lastCaseId s)"
      by (auto simp add: search_valid_def)
    then show "sequential searchBtn (added s (searchBtn_click_B env s)) = search_valid s"
      "sequential searchBtn (added s (searchBtn_click_C env s)) = search_valid s"
      by (cases;
          simp add: search_sequential search_blocked_query search_blocked_case
            blocked_not_sequential search_valid_def)+
  qed
  show "sequential searchBtn (added s (searchBtn_click_D env s)) = search_valid_D s"
  proof -
    consider "search_valid_D s" | "trim (field_value s searchQuery) = []"
      | "trim (field_value s searchQuery) \<noteq> []" "\<not> truthy (search_case_id_D s)"
      by (auto simp add: search_valid_D_def)
    then show ?thesis
      by cases
         (simp_all add: search_sequential search_blocked_query search_blocked_case
            blocked_not_sequential search_valid_D_def)
  qed
  show "sequential explainCaseBtn (added s (explainCaseBtn_click_C env s)) = explain_valid s"
    by (cases "explain_valid s")
       (simp_all add: explain_sequential explain_blocked blocked_not_sequential explain_valid_def)
  show "sequential mitreExtractBtn (added s (mitreExtractBtn_click_C env s)) = mitre_valid s"
    by (cases "mitre_valid s")
       (simp_all add: mitre_sequential mitre_blocked blocked_not_sequential)
qed

lemma disabled_after:
  "disabled (ingestBtn_click_A env s) =
     (if ingest_valid env s then (disabled s)(ingestBtn := False) else disabled s)"
  "disabled (ingestBtn_click_B env s) =
     (if ingest_valid env s then (disabled s)(ingestBtn := False) else disabled s)"
  "disabled (ingestBtn_click_C env s) =
     (if ingest_valid env s then (disabled s)(ingestBtn := False) else disabled s)"
  "disabled (ingestBtn_click_D env s) =
     (if ingest_valid env s then (disabled s)(ingestBtn := False) else disabled s)"
  "disabled (ingestFileBtn_click_C env s) =
     (if file_valid s then (disabled s)(ingestFileBtn := False) else disabled s)"
  "disabled (searchBtn_click_A env s) =
     (if search_valid_A s then (disabled s)(searchBtn := False) else disabled s)"
  "disabled (searchBtn_click_B env s) =
     (if search_valid s then (disabled s)(searchBtn := False) else disabled s)"
  "disabled (searchBtn_click_C env s) =
     (if search_valid s then (disabled s)(searchBtn := False) else disabled s)"
  "disabled (searchBtn_click_D env s) =
     (if search_valid_D s then (disabled s)(searchBtn := False) else disabled s)"
  "disabled (explainCaseBtn_click_C env s) =
     (if explain_valid s then (disabled s)(explainCaseBtn := False) else disabled s)"
  "disabled (mitreExtractBtn_click_C env s) =
     (if mitre_valid s then (disabled s)(mitreExtractBtn := False) else disabled s)"
proof -
  have catch_disabled [simp]:
    "disabled (catch_A env a b err t) = disabled t"
    "disabled (catch_B env a b err t) = disabled t"
    "disabled (catch_C env a b err t) = disabled t" for a b err t
    by (simp_all add: catch_defs Let_def)
  show "disabled (ingestBtn_click_A env s) =
     (if ingest_valid env s then (disabled s)(ingestBtn := False) else disabled s)"
    "disabled (ingestBtn_click_B env s) =
     (if ingest_valid env s then (disabled s)(ingestBtn := False) else disabled s)"
    "disabled (ingestBtn_click_C env s) =
     (if ingest_valid env s then (disabled s)(ingestBtn := False) else disabled s)"
    "disabled (ingestBtn_click_D env s) =
     (if ingest_valid env s then (disabled s)(ingestBtn := False) else disabled s)"
    by (auto simp add: ingest_defs Let_def callApi_eq split: sum.split option.split)
  show "disabled (ingestFileBtn_click_C env s) =
     (if file_valid s then (disabled s)(ingestFileBtn := False) else disabled s)"
    by (auto simp add: file_defs Let_def split: sum.split option.split list.split)
  show "disabled (searchBtn_click_A env s) =
     (if search_valid_A s then (disabled s)(searchBtn := False) else disabled s)"
    "disabled (searchBtn_click_B env s) =
     (if search_valid s then (disabled s)(searchBtn := False) else disabled s)"
    "disabled (searchBtn_click_C env s) =
     (if search_valid s then (disabled s)(searchBtn := False) else disabled s)"
    "disabled (searchBtn_click_D env s) =
     (if search_valid_D s then (disabled s)(searchBtn := False) else disabled s)"
    by (auto simp add: search_defs Let_def callApi_eq split: sum.split)
  show "disabled (explainCaseBtn_click_C env s) =
     (if explain_valid s then (disabled s)(explainCaseBtn := False) else disabled s)"
    by (auto simp add: explain_defs Let_def callApi_eq split: sum.split option.split)
  show "disabled (mitreExtractBtn_click_C env s) =
     (if mitre_valid s then (disabled s)(mitreExtractBtn := False) else disabled s)"
    by (auto simp add: mitre_defs Let_def callApi_eq split: sum.split option.split)
qed

subsection \<open>C1: the identifier of an ingest reaches the next search\<close>

text \<open>
  C1, as the claim states it, fails in two ways. In script B an answer whose \<^verbatim>\<open>case_id\<close> is
  the empty string holds a \<^verbatim>\<open>case_id\<close> field, yet the next search sends the identifier
  stored before. In script A an answer with a \<^verbatim>\<open>case_id\<close> leaves no trace: the next search
  sends no \<^verbatim>\<open>case_id\<close> at all.
\<close>

theorem falsy_case_id_counterexample:
  "get_prop
     (decode
        (sample_platform
           (by_url [(''/ingest'', Responded 200 ''{\"case_id\": \"\"}''),
                    (''/search'', Responded 200 ''[]'')]))
        ''{\"case_id\": \"\"}'')
     ''case_id'' = Inr (Some (JStr ''''))
   \<and> requests
       (added
          (ingestBtn_click_B
             (sample_platform
                (by_url [(''/ingest'', Responded 200 ''{\"case_id\": \"\"}''),
                         (''/search'', Responded 200 ''[]'')]))
             (with_case ''c-old''
                (typed [(ingestText, ''evidence log''), (searchQuery, ''malware'')] blank_page)))
          (searchBtn_click_B
             (sample_platform
                (by_url [(''/ingest'', Responded 200 ''{\"case_id\": \"\"}''),
                         (''/search'', Responded 200 ''[]'')]))
             (ingestBtn_click_B
                (sample_platform
                   (by_url [(''/ingest'', Responded 200 ''{\"case_id\": \"\"}''),
                            (''/search'', Responded 200 ''[]'')]))
                (with_case ''c-old''
                   (typed [(ingestText, ''evidence log''), (searchQuery, ''malware'')] blank_page)))))
     = [json_post ''/search''
          ''{\"case_id\":\"c-old\",\"query\":\"malware\",\"top_k\":5,\"include_metadata\":false}'']
   \<and> requests
       (added
          (ingestBtn_click_A
             (sample_platform
                (by_url [(''/ingest'', Responded 200 ''{\"case_id\": \"c-123\"}''),
                         (''/search'', Responded 200 ''[]'')]))
             (typed [(ingestText, ''evidence log''), (searchQuery, ''malware'')] blank_page))
          (searchBtn_click_A
             (sample_platform
                (by_url [(''/ingest'', Responded 200 ''{\"case_id\": \"c-123\"}''),
                         (''/search'', Responded 200 ''[]'')]))
             (ingestBtn_click_A
                (sample_platform
                   (by_url [(''/ingest'', Responded 200 ''{\"case_id\": \"c-123\"}''),
                            (''/search'', Responded 200 ''[]'')]))
                (typed [(ingestText, ''evidence log''), (searchQuery, ''malware'')] blank_page))))
     = [json_post ''/search'' ''{\"query\":\"malware\",\"top_k\":5,\"include_metadata\":false}'']"
  by code_simp

text \<open>
  C1, amended. In the scripts that keep \<^verbatim>\<open>lastCaseId\<close> (B, C and D), for every ingest (text,
  or file in script C) whose request is answered with a status from 200 to 299 and a
  decoded body that is truthy and has a truthy \<^verbatim>\<open>case_id\<close>, the ingest stores that
  \<^verbatim>\<open>case_id\<close>; and on every later page \<open>t\<close> where the variable still holds it, a search with
  a query sends exactly one request, the POST to \<^verbatim>\<open>/search\<close> with that \<^verbatim>\<open>case_id\<close>, without
  any manual entry (scripts B and C). In script D the ingest also writes the text of the
  identifier into the field \<^verbatim>\<open>caseId\<close> when the page has that field, and the search sends the
  trimmed content of the field, as a string, when the page has the field and the trimmed
  content is not empty (a manual entry, or the text written by the ingest), and the stored
  identifier otherwise.
\<close>

theorem ingested_case_id_reaches_search:
  "(returned_case_id env s (ingestBtn_click_B env s) = Some c \<longrightarrow>
      lastCaseId (ingestBtn_click_B env s) = c \<and>
      (lastCaseId t = c \<and> trim (field_value t searchQuery) \<noteq> [] \<longrightarrow>
         requests (added t (searchBtn_click_B env' t)) = [search_request env' c t]))
   \<and> (returned_case_id env s (ingestBtn_click_C env s) = Some c \<longrightarrow>
      lastCaseId (ingestBtn_click_C env s) = c \<and>
      (lastCaseId t = c \<and> trim (field_value t searchQuery) \<noteq> [] \<longrightarrow>
         requests (added t (searchBtn_click_C env' t)) = [search_request env' c t]))
   \<and> (returned_case_id env s (ingestFileBtn_click_C env s) = Some c \<longrightarrow>
      lastCaseId (ingestFileBtn_click_C env s) = c \<and>
      (lastCaseId t = c \<and> trim (field_value t searchQuery) \<noteq> [] \<longrightarrow>
         requests (added t (searchBtn_click_C env' t)) = [search_request env' c t]))
   \<and> (returned_case_id env s (ingestBtn_click_D env s) = Some c \<longrightarrow>
      lastCaseId (ingestBtn_click_D env s) = c \<and>
      (has_caseId s \<longrightarrow> field_value (ingestBtn_click_D env s) caseId = js_string env c) \<and>
      (lastCaseId t = c \<and> trim (field_value t searchQuery) \<noteq> [] \<longrightarrow>
         requests (added t (searchBtn_click_D env' t)) =
           [search_request env'
              (if has_caseId t \<and> trim (field_value t caseId) \<noteq> []
               then JStr (trim (field_value t caseId)) else c) t]))"
proof -
  have truthy_c: "truthy c" if "returned_case_id env s s' = Some c" for s'
    using that
    by (auto simp add: returned_case_id_def and_prop_def
        split: option.splits fetch_outcome.splits if_splits sum.splits)
  have field: "field_value (ingestBtn_click_D env s) caseId =
      (if ingest_valid env s
       then (case api_result env (ingest_request_D env s) of
               Inr res \<Rightarrow>
                 (case and_prop res ''case_id'' of
                    Some c \<Rightarrow> (if has_caseId s then js_string env c else field_value s caseId)
                  | None \<Rightarrow> field_value s caseId)
             | Inl e \<Rightarrow> field_value s caseId)
       else field_value s caseId)"
    by (auto simp add: ingest_defs Let_def callApi_eq catch_defs split: sum.split option.split)
  have echo: "has_caseId s \<Longrightarrow> field_value (ingestBtn_click_D env s) caseId = js_string env c"
    if "returned_case_id env s (ingestBtn_click_D env s) = Some c"
    using that
    by (auto simp add: returned_eq [OF ingest_requests(4)] field split: if_splits sum.splits)
  have D: "requests (added t (searchBtn_click_D env' t)) =
           [search_request env'
              (if has_caseId t \<and> trim (field_value t caseId) \<noteq> []
               then JStr (trim (field_value t caseId)) else c) t]"
    if "truthy c" "lastCaseId t = c" "trim (field_value t searchQuery) \<noteq> []"
    using that
    by (auto simp add: search_requests_all search_valid_D_def search_case_id_D_def)
  show ?thesis
    using truthy_c echo D
    by (auto simp add: ingest_lastCaseId ingestFile_lastCaseId search_requests_all
        search_valid_def)
qed

theorem ingested_case_id_reaches_search_witness:
  "requests
     (added (typed [(searchQuery, ''malware'')]
               (ingestBtn_click_B
                  (sample_platform (always (Responded 200 ''{\"case_id\": \"c-123\"}'')))
                  (typed [(ingestText, ''evidence log'')] blank_page)))
        (searchBtn_click_B (sample_platform (always (Responded 200 ''[]'')))
           (typed [(searchQuery, ''malware'')]
              (ingestBtn_click_B
                 (sample_platform (always (Responded 200 ''{\"case_id\": \"c-123\"}'')))
                 (typed [(ingestText, ''evidence log'')] blank_page)))))
   = [json_post ''/search''
        ''{\"case_id\":\"c-123\",\"query\":\"malware\",\"top_k\":5,\"include_metadata\":false}'']
   \<and> requests
     (added (typed [(searchQuery, ''malware'')]
               (ingestFileBtn_click_C
                  (sample_platform (always (Responded 200 ''{\"case_id\": \"c-123\"}'')))
                  busy_page))
        (searchBtn_click_C (sample_platform (always (Responded 200 ''[]'')))
           (typed [(searchQuery, ''malware'')]
              (ingestFileBtn_click_C
                 (sample_platform (always (Responded 200 ''{\"case_id\": \"c-123\"}'')))
                 busy_page))))
   = [json_post ''/search''
        ''{\"case_id\":\"c-123\",\"query\":\"malware\",\"top_k\":5,\"include_metadata\":false}'']
   \<and> field_value
       (ingestBtn_click_D (sample_platform (always (Responded 200 ''{\"case_id\": \"c-123\"}'')))
          (with_case_field (typed [(ingestText, ''evidence log'')] blank_page)))
       caseId = ''c-123''
   \<and> requests
     (added (typed [(searchQuery, ''malware''), (caseId, '' c-9 '')]
               (ingestBtn_click_D
                  (sample_platform (always (Responded 200 ''{\"case_id\": \"c-123\"}'')))
                  (with_case_field (typed [(ingestText, ''evidence log'')] blank_page))))
        (searchBtn_click_D (sample_platform (always (Responded 200 ''[]'')))
           (typed [(searchQuery, ''malware''), (caseId, '' c-9 '')]
              (ingestBtn_click_D
                 (sample_platform (always (Responded 200 ''{\"case_id\": \"c-123\"}'')))
                 (with_case_field (typed [(ingestText, ''evidence log'')] blank_page))))))
   = [json_post ''/search''
        ''{\"case_id\":\"c-9\",\"query\":\"malware\",\"top_k\":5,\"include_metadata\":false}'']"
proof -
  let ?in = "sample_platform (always (Responded 200 ''{\"case_id\": \"c-123\"}''))"
  let ?se = "sample_platform (always (Responded 200 ''[]''))"
  let ?s = "typed [(ingestText, ''evidence log'')] blank_page"
  let ?tB = "typed [(searchQuery, ''malware'')] (ingestBtn_click_B ?in ?s)"
  let ?tF = "typed [(searchQuery, ''malware'')] (ingestFileBtn_click_C ?in busy_page)"
  let ?sD = "with_case_field ?s"
  let ?tD = "typed [(searchQuery, ''malware''), (caseId, '' c-9 '')] (ingestBtn_click_D ?in ?sD)"
  let ?c = "JStr ''c-123''"
  have rB: "returned_case_id ?in ?s (ingestBtn_click_B ?in ?s) = Some ?c" by code_simp
  have rF: "returned_case_id ?in busy_page (ingestFileBtn_click_C ?in busy_page) = Some ?c"
    by code_simp
  have rD: "returned_case_id ?in ?sD (ingestBtn_click_D ?in ?sD) = Some ?c" by code_simp
  have tB: "lastCaseId ?tB = ?c \<and> trim (field_value ?tB searchQuery) \<noteq> []" by code_simp
  have tF: "lastCaseId ?tF = ?c \<and> trim (field_value ?tF searchQuery) \<noteq> []" by code_simp
  have tD: "lastCaseId ?tD = ?c \<and> trim (field_value ?tD searchQuery) \<noteq> []" by code_simp
  have hD: "has_caseId ?sD" by code_simp
  have eB: "search_request ?se ?c ?tB = json_post ''/search''
        ''{\"case_id\":\"c-123\",\"query\":\"malware\",\"top_k\":5,\"include_metadata\":false}''"
    by code_simp
  have eF: "search_request ?se ?c ?tF = json_post ''/search''
        ''{\"case_id\":\"c-123\",\"query\":\"malware\",\"top_k\":5,\"include_metadata\":false}''"
    by code_simp
  have eD: "search_request ?se
              (if has_caseId ?tD \<and> trim (field_value ?tD caseId) \<noteq> []
               then JStr (trim (field_value ?tD caseId)) else ?c) ?tD
            = json_post ''/search''
        ''{\"case_id\":\"c-9\",\"query\":\"malware\",\"top_k\":5,\"include_metadata\":false}''"
    by code_simp
  have jD: "js_string ?in ?c = ''c-123''" by code_simp
  show ?thesis
    using ingested_case_id_reaches_search [of ?in ?s ?c ?tB ?se]
      ingested_case_id_reaches_search [of ?in busy_page ?c ?tF ?se]
      ingested_case_id_reaches_search [of ?in ?sD ?c ?tD ?se]
      rB rF rD tB tF tD hD eB eF eD jD
    by simp
qed

subsection \<open>C2: the contract of \<^verbatim>\<open>callApi\<close>\<close>

text \<open>
  C2. For every path and options, when the network answers with a status and a body
  text, \<open>callApi\<close> decodes the text as JSON and takes the raw text as the value when the
  decoding fails; with a status outside 200 to 299 it fails with an error that carries
  the status code and that value, and otherwise it returns that value. It performs
  exactly one network call, for the request built from the path and the options.
\<close>

theorem callApi_contract:
  assumes "fetch env (api_request path opts) = Responded st txt"
  shows "fst (callApi env path opts s) =
           (if 200 \<le> st \<and> st \<le> 299
            then Inr (case JSON_parse env txt of Some j \<Rightarrow> j | None \<Rightarrow> JStr txt)
            else Inl (ApiError st (case JSON_parse env txt of Some j \<Rightarrow> j | None \<Rightarrow> JStr txt)))
         \<and> events (snd (callApi env path opts s)) = events s @ [Fetch (api_request path opts)]"
  using assms by (simp add: callApi_def decode_def ok_def emit_def Let_def)

theorem callApi_contract_witness:
  "fst (callApi (sample_platform (\<lambda>r. Responded 500 ''boom'')) ''/cases'' no_options blank_page)
     = Inl (ApiError 500 (JStr ''boom''))
   \<and> fst (callApi (sample_platform (\<lambda>r. Responded 200 ''{\"case_id\": \"c-123\"}''))
            ''/cases'' no_options blank_page)
     = Inr (JObj [(''case_id'', JStr ''c-123'')])"
  using callApi_contract [of "sample_platform (\<lambda>r. Responded 500 ''boom'')" "''/cases''"
      no_options 500 "''boom''" blank_page]
    callApi_contract [of "sample_platform (\<lambda>r. Responded 200 ''{\"case_id\": \"c-123\"}'')"
      "''/cases''" no_options 200 "''{\"case_id\": \"c-123\"}''" blank_page]
  by (simp add: sample_platform_def sample_parse_def)

subsection \<open>C3: validation stops the operation on the page\<close>

text \<open>
  C3, as the claim states it, fails for a metadata field that holds white space only: the
  field is not empty and is not JSON, yet the handler trims it, takes it as absent and
  sends the request.
\<close>

theorem blank_metadata_counterexample:
  "field_value (typed [(ingestText, ''evidence log''), (ingestMetadata, '' '')] blank_page)
     ingestMetadata \<noteq> []
   \<and> JSON_parse (sample_platform (always (Responded 200 ''{\"case_id\": \"c-123\"}'')))
       (field_value (typed [(ingestText, ''evidence log''), (ingestMetadata, '' '')] blank_page)
          ingestMetadata) = None
   \<and> requests
       (added (typed [(ingestText, ''evidence log''), (ingestMetadata, '' '')] blank_page)
          (ingestBtn_click_B (sample_platform (always (Responded 200 ''{\"case_id\": \"c-123\"}'')))
             (typed [(ingestText, ''evidence log''), (ingestMetadata, '' '')] blank_page)))
     = [json_post ''/ingest'' ''{\"text\":\"evidence log\",\"metadata\":{\"source\":\"ui\"}}'']"
  by code_simp

text \<open>
  C3, amended. In every script: a click on the ingest control with a text that is empty
  after trimming, or with metadata that after trimming are not empty and do not parse as
  JSON, a click on the file ingest control with no file selected, and a click on the
  search control with a query that is empty after trimming, each only write validation
  messages to the status element (the file ingest after it has reset its status and
  result elements): these writes are all the handler does, so it sends no request.
\<close>

theorem validation_stops_locally:
  "(trim (field_value s ingestText) = [] \<longrightarrow>
      added s (ingestBtn_click_A env s) = [SetText ingestStatus ''Enter text.''] \<and>
      added s (ingestBtn_click_B env s) = [SetText ingestStatus ''Enter text.''] \<and>
      added s (ingestBtn_click_C env s) = [SetText ingestStatus ''Enter text.''] \<and>
      added s (ingestBtn_click_D env s) = [SetText ingestStatus ''Enter text.''])
   \<and> (trim (field_value s ingestText) \<noteq> [] \<and> trim (field_value s ingestMetadata) \<noteq> [] \<and>
       JSON_parse env (trim (field_value s ingestMetadata)) = None \<longrightarrow>
      added s (ingestBtn_click_A env s) = [SetText ingestStatus ''Invalid metadata JSON.''] \<and>
      added s (ingestBtn_click_B env s) = [SetText ingestStatus ''Invalid metadata JSON.''] \<and>
      added s (ingestBtn_click_C env s) = [SetText ingestStatus ''Invalid metadata JSON.''] \<and>
      added s (ingestBtn_click_D env s) = [SetText ingestStatus ''Invalid metadata JSON.''])
   \<and> (files s = [] \<longrightarrow>
      added s (ingestFileBtn_click_C env s) =
        [SetText ingestFileStatus '''', SetText ingestFileResult ''{}'',
         SetText ingestFileStatus ''Choose a file first.''])
   \<and> (trim (field_value s searchQuery) = [] \<longrightarrow>
      added s (searchBtn_click_A env s) = [SetText searchStatus ''Enter query.''] \<and>
      added s (searchBtn_click_B env s) = [SetText searchStatus ''Enter query.''] \<and>
      added s (searchBtn_click_C env s) = [SetText searchStatus ''Enter query.''] \<and>
      added s (searchBtn_click_D env s) = [SetText searchStatus ''Enter query.''])"
proof (intro conjI impI)
  assume "trim (field_value s ingestText) = []"
  then have "\<not> ingest_valid env s" by (simp add: ingest_valid_def)
  then show "added s (ingestBtn_click_A env s) = [SetText ingestStatus ''Enter text.'']"
    and "added s (ingestBtn_click_B env s) = [SetText ingestStatus ''Enter text.'']"
    and "added s (ingestBtn_click_C env s) = [SetText ingestStatus ''Enter text.'']"
    and "added s (ingestBtn_click_D env s) = [SetText ingestStatus ''Enter text.'']"
    using \<open>trim (field_value s ingestText) = []\<close> by (simp_all add: ingest_blocked)
next
  assume bad: "trim (field_value s ingestText) \<noteq> [] \<and> trim (field_value s ingestMetadata) \<noteq> [] \<and>
       JSON_parse env (trim (field_value s ingestMetadata)) = None"
  then have "\<not> ingest_valid env s" by (simp add: ingest_valid_def)
  then show "added s (ingestBtn_click_A env s) = [SetText ingestStatus ''Invalid metadata JSON.'']"
    and "added s (ingestBtn_click_B env s) = [SetText ingestStatus ''Invalid metadata JSON.'']"
    and "added s (ingestBtn_click_C env s) = [SetText ingestStatus ''Invalid metadata JSON.'']"
    and "added s (ingestBtn_click_D env s) = [SetText ingestStatus ''Invalid metadata JSON.'']"
    using bad by (simp_all add: ingest_blocked)
next
  assume "files s = []"
  then show "added s (ingestFileBtn_click_C env s) =
        [SetText ingestFileStatus '''', SetText ingestFileResult ''{}'',
         SetText ingestFileStatus ''Choose a file first.'']"
    by (rule file_blocked)
next
  assume q: "trim (field_value s searchQuery) = []"
  then show "added s (searchBtn_click_A env s) = [SetText searchStatus ''Enter query.'']"
    and "added s (searchBtn_click_B env s) = [SetText searchStatus ''Enter query.'']"
    and "added s (searchBtn_click_C env s) = [SetText searchStatus ''Enter query.'']"
    and "added s (searchBtn_click_D env s) = [SetText searchStatus ''Enter query.'']"
    by (simp_all add: search_blocked_query)
qed

theorem validation_stops_locally_witness:
  "added blank_page (ingestBtn_click_B (sample_platform (always (Responded 200 ''{}''))) blank_page)
     = [SetText ingestStatus ''Enter text.'']
   \<and> added (typed [(ingestText, ''evidence log''), (ingestMetadata, ''{bad'')] blank_page)
       (ingestBtn_click_B (sample_platform (always (Responded 200 ''{}'')))
          (typed [(ingestText, ''evidence log''), (ingestMetadata, ''{bad'')] blank_page))
     = [SetText ingestStatus ''Invalid metadata JSON.'']
   \<and> added blank_page
       (ingestFileBtn_click_C (sample_platform (always (Responded 200 ''{}''))) blank_page)
     = [SetText ingestFileStatus '''', SetText ingestFileResult ''{}'',
        SetText ingestFileStatus ''Choose a file first.'']
   \<and> added blank_page (searchBtn_click_D (sample_platform (always (Responded 200 ''{}''))) blank_page)
     = [SetText searchStatus ''Enter query.'']"
proof -
  let ?env = "sample_platform (always (Responded 200 ''{}''))"
  let ?bad = "typed [(ingestText, ''evidence log''), (ingestMetadata, ''{bad'')] blank_page"
  have h1: "trim (field_value blank_page ingestText) = []" by code_simp
  have h2: "trim (field_value ?bad ingestText) \<noteq> [] \<and> trim (field_value ?bad ingestMetadata) \<noteq> [] \<and>
       JSON_parse ?env (trim (field_value ?bad ingestMetadata)) = None" by code_simp
  have h3: "files blank_page = []" by code_simp
  have h4: "trim (field_value blank_page searchQuery) = []" by code_simp
  show ?thesis
    using validation_stops_locally [of blank_page ?env] validation_stops_locally [of ?bad ?env]
      h1 h2 h3 h4
    by blast
qed

subsection \<open>C4: a search without a current case identifier\<close>

text \<open>
  C4, as the claim states it, fails for the script \<^verbatim>\<open>src/static/rag_console.js\<close>: it keeps no
  case identifier and tests none, so with a query its search sends the request.
\<close>

theorem search_without_case_counterexample:
  "\<not> truthy (lastCaseId (typed [(searchQuery, ''malware'')] blank_page))
   \<and> requests
       (added (typed [(searchQuery, ''malware'')] blank_page)
          (searchBtn_click_A (sample_platform (always (Responded 200 ''[]'')))
             (typed [(searchQuery, ''malware'')] blank_page)))
     = [json_post ''/search'' ''{\"query\":\"malware\",\"top_k\":5,\"include_metadata\":false}'']"
  by code_simp

text \<open>
  C4, amended. In the scripts that keep a current case identifier (B, C and D), a click on
  the search control while none exists (the variable \<^verbatim>\<open>lastCaseId\<close> is falsy and, in script
  D, the page has no \<^verbatim>\<open>caseId\<close> field or the field is empty after trimming) only writes a
  validation message to the status element and sends no request.
\<close>

theorem search_needs_case_id:
  assumes "\<not> truthy (lastCaseId s)"
  shows "added s (searchBtn_click_B env s) =
           [SetText searchStatus
              (if trim (field_value s searchQuery) = [] then ''Enter query.''
               else ''Missing case_id: ingest first.'')]
         \<and> added s (searchBtn_click_C env s) =
           [SetText searchStatus
              (if trim (field_value s searchQuery) = [] then ''Enter query.''
               else ''Missing case_id: ingest first (text or file).'')]
         \<and> (\<not> has_caseId s \<or> trim (field_value s caseId) = [] \<longrightarrow>
            added s (searchBtn_click_D env s) =
              [SetText searchStatus
                 (if trim (field_value s searchQuery) = [] then ''Enter query.''
                  else ''Missing case_id: ingest text first or enter a case id.'')])"
proof -
  have "\<not> has_caseId s \<or> trim (field_value s caseId) = [] \<Longrightarrow> \<not> truthy (search_case_id_D s)"
    using assms by (auto simp add: search_case_id_D_def)
  then show ?thesis
    using assms
    by (cases "trim (field_value s searchQuery) = []")
       (auto simp add: search_blocked_query search_blocked_case)
qed

theorem search_needs_case_id_witness:
  "added (typed [(searchQuery, ''malware'')] blank_page)
     (searchBtn_click_B (sample_platform (always (Responded 200 ''[]'')))
        (typed [(searchQuery, ''malware'')] blank_page))
     = [SetText searchStatus ''Missing case_id: ingest first.'']
   \<and> added (typed [(searchQuery, ''malware'')] blank_page)
     (searchBtn_click_D (sample_platform (always (Responded 200 ''[]'')))
        (typed [(searchQuery, ''malware'')] blank_page))
     = [SetText searchStatus ''Missing case_id: ingest text first or enter a case id.'']"
proof -
  let ?s = "typed [(searchQuery, ''malware'')] blank_page"
  have h: "\<not> truthy (lastCaseId ?s)" by code_simp
  have f: "\<not> has_caseId ?s" by code_simp
  have q: "trim (field_value ?s searchQuery) \<noteq> []" by code_simp
  show ?thesis
    using search_needs_case_id [OF h, of "sample_platform (always (Responded 200 ''[]''))"] f q
    by simp
qed

subsection \<open>C5: the value of \<^verbatim>\<open>top_k\<close>\<close>




subsection \<open>C6: when the current case identifier changes\<close>

lemma step_lastCaseId:
  "lastCaseId (step_A env a s) = lastCaseId s"
  "lastCaseId (step_B env a s) =
     (if a = Click ingestBtn
      then (case returned_case_id env s (step_B env a s) of Some c \<Rightarrow> c | None \<Rightarrow> lastCaseId s)
      else lastCaseId s)"
  "lastCaseId (step_C env a s) =
     (if a = Click ingestBtn \<or> a = Click ingestFileBtn
      then (case returned_case_id env s (step_C env a s) of Some c \<Rightarrow> c | None \<Rightarrow> lastCaseId s)
      else lastCaseId s)"
  "lastCaseId (step_D env a s) =
     (if a = Click ingestBtn
      then (case returned_case_id env s (step_D env a s) of Some c \<Rightarrow> c | None \<Rightarrow> lastCaseId s)
      else lastCaseId s)"
proof -
  note all = ingest_lastCaseId(1) search_lastCaseId clear_lastCaseId viewer_lastCaseId
    export_lastCaseId user_input_lastCaseId
  show "lastCaseId (step_A env a s) = lastCaseId s"
    by (simp add: step_A_def all split: action.split elem.split)
  show "lastCaseId (step_B env a s) =
     (if a = Click ingestBtn
      then (case returned_case_id env s (step_B env a s) of Some c \<Rightarrow> c | None \<Rightarrow> lastCaseId s)
      else lastCaseId s)"
  proof (cases "a = Click ingestBtn")
    case True
    then show ?thesis using ingest_lastCaseId(2) [of env s] by (simp add: step_B_def)
  next
    case False
    then show ?thesis by (simp add: step_B_def all split: action.split elem.split)
  qed
  show "lastCaseId (step_C env a s) =
     (if a = Click ingestBtn \<or> a = Click ingestFileBtn
      then (case returned_case_id env s (step_C env a s) of Some c \<Rightarrow> c | None \<Rightarrow> lastCaseId s)
      else lastCaseId s)"
  proof -
    consider "a = Click ingestBtn" | "a = Click ingestFileBtn"
      | "a \<noteq> Click ingestBtn" "a \<noteq> Click ingestFileBtn"
      by blast
    then show ?thesis
    proof cases
      case 1
      then show ?thesis using ingest_lastCaseId(3) [of env s] by (simp add: step_C_def)
    next
      case 2
      then show ?thesis using ingestFile_lastCaseId [of env s] by (simp add: step_C_def)
    next
      case 3
      then show ?thesis by (simp add: step_C_def all split: action.split elem.split)
    qed
  qed
  show "lastCaseId (step_D env a s) =
     (if a = Click ingestBtn
      then (case returned_case_id env s (step_D env a s) of Some c \<Rightarrow> c | None \<Rightarrow> lastCaseId s)
      else lastCaseId s)"
  proof (cases "a = Click ingestBtn")
    case True
    then show ?thesis using ingest_lastCaseId(4) [of env s] by (simp add: step_D_def)
  next
    case False
    then show ?thesis by (simp add: step_D_def all split: action.split elem.split)
  qed
qed

text \<open>
  In a session the variable is the empty string until an ingest stores an identifier, and
  a stored identifier is truthy: at every moment \<^verbatim>\<open>lastCaseId\<close> is \<^verbatim>\<open>""\<close> or truthy.
\<close>

lemma returned_truthy: "returned_case_id env s s' = Some c \<Longrightarrow> truthy c"
  by (auto simp add: returned_case_id_def and_prop_def
      split: option.splits fetch_outcome.splits if_splits sum.splits)

lemma step_identifier:
  assumes "lastCaseId s = JStr [] \<or> truthy (lastCaseId s)"
  shows "lastCaseId (step_B env a s) = JStr [] \<or> truthy (lastCaseId (step_B env a s))"
    and "lastCaseId (step_C env a s) = JStr [] \<or> truthy (lastCaseId (step_C env a s))"
    and "lastCaseId (step_D env a s) = JStr [] \<or> truthy (lastCaseId (step_D env a s))"
  using assms returned_truthy [of env s "step_B env a s"] returned_truthy [of env s "step_C env a s"]
    returned_truthy [of env s "step_D env a s"]
  by (auto simp add: step_lastCaseId split: option.splits)

lemma run_identifier:
  assumes "lastCaseId s = JStr [] \<or> truthy (lastCaseId s)"
  shows "lastCaseId (run step_B acts s) = JStr [] \<or> truthy (lastCaseId (run step_B acts s))"
    and "lastCaseId (run step_C acts s) = JStr [] \<or> truthy (lastCaseId (run step_C acts s))"
    and "lastCaseId (run step_D acts s) = JStr [] \<or> truthy (lastCaseId (run step_D acts s))"
  using assms
  by (induction acts arbitrary: s; simp add: step_identifier)+

lemma session_identifier:
  "lastCaseId (run step_B acts (script_start s)) = JStr [] \<or>
   truthy (lastCaseId (run step_B acts (script_start s)))"
  "lastCaseId (run step_C acts (script_start s)) = JStr [] \<or>
   truthy (lastCaseId (run step_C acts (script_start s)))"
  "lastCaseId (run step_D acts (script_start s)) = JStr [] \<or>
   truthy (lastCaseId (run step_D acts (script_start s)))"
  by (rule run_identifier; simp add: script_start_def)+




subsection \<open>C7: the order of one operation and the rendering of failures\<close>

text \<open>
  C7, as the claim states it, fails for the load-cases control (scripts B and C): its
  handler disables and enables nothing, and on a status 500 it renders the body only, not
  the status code.
\<close>

theorem load_cases_counterexample:
  "added blank_page (loadCasesBtn_click_B failing_platform blank_page)
     = [SetText caseList ''Loading...'',
        Fetch \<lparr>req_url = ''/cases'', req_method = ''GET'',
               req_headers = [(''Content-Type'', ''application/json'')], req_body = None\<rparr>,
        SetText caseList ''\"boom\"'']"
  by code_simp

text \<open>
  C7, amended. For every click of the ingest, file ingest, search, explain and MITRE
  controls, in every script that has the control: the events of the handler are in the
  order disable the trigger, send the one request, render, enable the trigger (with writes
  to the page only in between, and before the disabling only writes) exactly when the page
  passes the validation of the handler, and a page that fails it changes no disabled flag;
  when the page passes, the trigger is enabled at the end whatever the outcome of the
  request (success, failure of the API, rejected fetch), and no other disabled flag
  changes; and when the answer has a status outside 200 to 299, the status element holds
  \<^verbatim>\<open>Error:\<close> with the status code and the result element holds the pretty-printed body
  (script C prints the whole error object when the body is \<^verbatim>\<open>null\<close>). The load-cases and
  case-detail operations are outside this contract.
\<close>

theorem operations_keep_contract:
  "operation_contract env ingestBtn (ingest_valid env s) False ingestStatus ingestResult s
       (ingestBtn_click_A env s)
   \<and> operation_contract env ingestBtn (ingest_valid env s) False ingestStatus ingestResult s
       (ingestBtn_click_B env s)
   \<and> operation_contract env ingestBtn (ingest_valid env s) True ingestStatus ingestResult s
       (ingestBtn_click_C env s)
   \<and> operation_contract env ingestBtn (ingest_valid env s) False ingestStatus ingestResult s
       (ingestBtn_click_D env s)
   \<and> operation_contract env ingestFileBtn (file_valid s) True ingestFileStatus ingestFileResult s
       (ingestFileBtn_click_C env s)
   \<and> operation_contract env searchBtn (search_valid_A s) False searchStatus searchResult s
       (searchBtn_click_A env s)
   \<and> operation_contract env searchBtn (search_valid s) False searchStatus searchResult s
       (searchBtn_click_B env s)
   \<and> operation_contract env searchBtn (search_valid s) True searchStatus searchResult s
       (searchBtn_click_C env s)
   \<and> operation_contract env searchBtn (search_valid_D s) False searchStatus searchResult s
       (searchBtn_click_D env s)
   \<and> operation_contract env explainCaseBtn (explain_valid s) True explainStatus explainResult s
       (explainCaseBtn_click_C env s)
   \<and> operation_contract env mitreExtractBtn (mitre_valid s) True mitreStatus mitreResult s
       (mitreExtractBtn_click_C env s)"
  by (simp add: operation_contract_def sequential_iff disabled_after ingest_error_shown
      file_error_shown search_error_shown explain_error_shown mitre_error_shown)

theorem operations_keep_contract_witness:
  "sequential ingestBtn (added busy_page (ingestBtn_click_A failing_platform busy_page))
     \<and> \<not> disabled (ingestBtn_click_A failing_platform busy_page) ingestBtn
     \<and> textContent (ingestBtn_click_A failing_platform busy_page) ingestStatus = ''Error: 500''
     \<and> textContent (ingestBtn_click_A failing_platform busy_page) ingestResult = ''\"boom\"''
   \<and> sequential ingestBtn (added busy_page (ingestBtn_click_B failing_platform busy_page))
     \<and> \<not> disabled (ingestBtn_click_B failing_platform busy_page) ingestBtn
     \<and> textContent (ingestBtn_click_B failing_platform busy_page) ingestStatus = ''Error: 500''
     \<and> textContent (ingestBtn_click_B failing_platform busy_page) ingestResult = ''\"boom\"''
   \<and> sequential ingestBtn (added busy_page (ingestBtn_click_C failing_platform busy_page))
     \<and> \<not> disabled (ingestBtn_click_C failing_platform busy_page) ingestBtn
     \<and> textContent (ingestBtn_click_C failing_platform busy_page) ingestStatus = ''Error: 500''
     \<and> textContent (ingestBtn_click_C failing_platform busy_page) ingestResult = ''\"boom\"''
   \<and> sequential ingestBtn (added busy_page (ingestBtn_click_D failing_platform busy_page))
     \<and> \<not> disabled (ingestBtn_click_D failing_platform busy_page) ingestBtn
     \<and> textContent (ingestBtn_click_D failing_platform busy_page) ingestStatus = ''Error: 500''
     \<and> textContent (ingestBtn_click_D failing_platform busy_page) ingestResult = ''\"boom\"''
   \<and> sequential ingestFileBtn (added busy_page (ingestFileBtn_click_C failing_platform busy_page))
     \<and> \<not> disabled (ingestFileBtn_click_C failing_platform busy_page) ingestFileBtn
     \<and> textContent (ingestFileBtn_click_C failing_platform busy_page) ingestFileStatus = ''Error: 500''
     \<and> textContent (ingestFileBtn_click_C failing_platform busy_page) ingestFileResult = ''\"boom\"''
   \<and> sequential searchBtn (added busy_page (searchBtn_click_A failing_platform busy_page))
     \<and> \<not> disabled (searchBtn_click_A failing_platform busy_page) searchBtn
     \<and> textContent (searchBtn_click_A failing_platform busy_page) searchStatus = ''Error: 500''
     \<and> textContent (searchBtn_click_A failing_platform busy_page) searchResult = ''\"boom\"''
   \<and> sequential searchBtn (added busy_page (searchBtn_click_B failing_platform busy_page))
     \<and> \<not> disabled (searchBtn_click_B failing_platform busy_page) searchBtn
     \<and> textContent (searchBtn_click_B failing_platform busy_page) searchStatus = ''Error: 500''
     \<and> textContent (searchBtn_click_B failing_platform busy_page) searchResult = ''\"boom\"''
   \<and> sequential searchBtn (added busy_page (searchBtn_click_C failing_platform busy_page))
     \<and> \<not> disabled (searchBtn_click_C failing_platform busy_page) searchBtn
     \<and> textContent (searchBtn_click_C failing_platform busy_page) searchStatus = ''Error: 500''
     \<and> textContent (searchBtn_click_C failing_platform busy_page) searchResult = ''\"boom\"''
   \<and> sequential searchBtn (added busy_page (searchBtn_click_D failing_platform busy_page))
     \<and> \<not> disabled (searchBtn_click_D failing_platform busy_page) searchBtn
     \<and> textContent (searchBtn_click_D failing_platform busy_page) searchStatus = ''Error: 500''
     \<and> textContent (searchBtn_click_D failing_platform busy_page) searchResult = ''\"boom\"''
   \<and> sequential explainCaseBtn (added busy_page (explainCaseBtn_click_C failing_platform busy_page))
     \<and> \<not> disabled (explainCaseBtn_click_C failing_platform busy_page) explainCaseBtn
     \<and> textContent (explainCaseBtn_click_C failing_platform busy_page) explainStatus = ''Error: 500''
     \<and> textContent (explainCaseBtn_click_C failing_platform busy_page) explainResult = ''\"boom\"''
   \<and> sequential mitreExtractBtn (added busy_page (mitreExtractBtn_click_C failing_platform busy_page))
     \<and> \<not> disabled (mitreExtractBtn_click_C failing_platform busy_page) mitreExtractBtn
     \<and> textContent (mitreExtractBtn_click_C failing_platform busy_page) mitreStatus = ''Error: 500''
     \<and> textContent (mitreExtractBtn_click_C failing_platform busy_page) mitreResult = ''\"boom\"''"
proof -
  have valid: "ingest_valid failing_platform busy_page" "file_valid busy_page"
    "search_valid_A busy_page" "search_valid busy_page" "search_valid_D busy_page"
    "explain_valid busy_page" "mitre_valid busy_page"
    by code_simp+
  have answers:
    "answer failing_platform busy_page (ingestBtn_click_A failing_platform busy_page) = Some (Responded 500 ''boom'')"
    "answer failing_platform busy_page (ingestBtn_click_B failing_platform busy_page) = Some (Responded 500 ''boom'')"
    "answer failing_platform busy_page (ingestBtn_click_C failing_platform busy_page) = Some (Responded 500 ''boom'')"
    "answer failing_platform busy_page (ingestBtn_click_D failing_platform busy_page) = Some (Responded 500 ''boom'')"
    "answer failing_platform busy_page (ingestFileBtn_click_C failing_platform busy_page) = Some (Responded 500 ''boom'')"
    "answer failing_platform busy_page (searchBtn_click_A failing_platform busy_page) = Some (Responded 500 ''boom'')"
    "answer failing_platform busy_page (searchBtn_click_B failing_platform busy_page) = Some (Responded 500 ''boom'')"
    "answer failing_platform busy_page (searchBtn_click_C failing_platform busy_page) = Some (Responded 500 ''boom'')"
    "answer failing_platform busy_page (searchBtn_click_D failing_platform busy_page) = Some (Responded 500 ''boom'')"
    "answer failing_platform busy_page (explainCaseBtn_click_C failing_platform busy_page) = Some (Responded 500 ''boom'')"
    "answer failing_platform busy_page (mitreExtractBtn_click_C failing_platform busy_page) = Some (Responded 500 ''boom'')"
    by code_simp+
  have texts: "\<not> ok 500" "decode failing_platform ''boom'' = JStr ''boom''"
    "JSON_stringify2 failing_platform (Val (JStr ''boom'')) = ''\"boom\"''"
    "show_nat 500 = ''500''"
    by code_simp+
  show ?thesis
    using operations_keep_contract [of failing_platform busy_page] valid
    by (simp add: operation_contract_def error_shown_def answers texts)
qed

subsection \<open>C8: the explain control\<close>

text \<open>
  C8, as the claim states it, fails for an answer whose \<^verbatim>\<open>summary\<close> is present and falsy,
  here the empty string: the handler tests \<^verbatim>\<open>res.summary || pretty(res)\<close> and renders the
  whole answer, not the summary.
\<close>

theorem empty_summary_counterexample:
  "get_prop (decode (sample_platform (always (Responded 200 ''{\"summary\": \"\"}'')))
               ''{\"summary\": \"\"}'') ''summary'' = Inr (Some (JStr ''''))
   \<and> textContent
       (explainCaseBtn_click_C (sample_platform (always (Responded 200 ''{\"summary\": \"\"}'')))
          (with_case ''c-123'' blank_page)) explainResult
     = ''{'' @ [CHR 0x0A] @ ''  \"summary\": \"\"'' @ [CHR 0x0A] @ ''}''"
  by code_simp

text \<open>
  C8, amended. For every click of the explain control: when no current case identifier
  exists (\<^verbatim>\<open>lastCaseId\<close> is falsy) the handler only writes the status message
  \<^verbatim>\<open>No case selected.\<close> and sends no request; when one exists it sends one request, the
  POST of \<^verbatim>\<open>{case_id}\<close> to \<^verbatim>\<open>/explain_case\<close>, and for an answer with a status from 200 to 299
  whose decoded body is not \<^verbatim>\<open>null\<close> it renders the \<^verbatim>\<open>summary\<close> of the body when that is
  truthy, and otherwise the whole body pretty-printed.
\<close>

theorem explain_renders_summary:
  "(\<not> truthy (lastCaseId s) \<longrightarrow>
      added s (explainCaseBtn_click_C env s) = [SetText explainStatus ''No case selected.''])
   \<and> (truthy (lastCaseId s) \<longrightarrow>
      requests (added s (explainCaseBtn_click_C env s)) =
        [api_request ''/explain_case''
           (post (JSON_stringify env (JObj [(''case_id'', lastCaseId s)])))])
   \<and> (truthy (lastCaseId s) \<and>
       fetch env (api_request ''/explain_case''
                    (post (JSON_stringify env (JObj [(''case_id'', lastCaseId s)]))))
         = Responded st txt \<and>
       ok st \<and> decode env txt \<noteq> JNull \<longrightarrow>
      textContent (explainCaseBtn_click_C env s) explainStatus = ''AI summary ready.'' \<and>
      textContent (explainCaseBtn_click_C env s) explainResult =
        (case get_prop (decode env txt) ''summary'' of
           Inr (Some v) \<Rightarrow>
             (if truthy v then js_string env v else JSON_stringify2 env (Val (decode env txt)))
         | _ \<Rightarrow> JSON_stringify2 env (Val (decode env txt))))"
proof (intro conjI impI)
  assume "\<not> truthy (lastCaseId s)"
  then show "added s (explainCaseBtn_click_C env s) = [SetText explainStatus ''No case selected.'']"
    by (rule explain_blocked)
next
  assume "truthy (lastCaseId s)"
  then show "requests (added s (explainCaseBtn_click_C env s)) =
        [api_request ''/explain_case''
           (post (JSON_stringify env (JObj [(''case_id'', lastCaseId s)])))]"
    by (simp add: explain_requests explain_valid_def explain_request_def)
next
  assume a: "truthy (lastCaseId s) \<and>
       fetch env (api_request ''/explain_case''
                    (post (JSON_stringify env (JObj [(''case_id'', lastCaseId s)]))))
         = Responded st txt \<and>
       ok st \<and> decode env txt \<noteq> JNull"
  then have v: "explain_valid s"
    and r: "api_result env (explain_request env s) = Inr (decode env txt)"
    by (simp_all add: explain_valid_def explain_request_def api_result_def)
  from a have n: "decode env txt \<noteq> JNull" by simp
  show "textContent (explainCaseBtn_click_C env s) explainStatus = ''AI summary ready.''"
    by (rule explain_success(1) [OF v r n])
  show "textContent (explainCaseBtn_click_C env s) explainResult =
        (case get_prop (decode env txt) ''summary'' of
           Inr (Some v) \<Rightarrow>
             (if truthy v then js_string env v else JSON_stringify2 env (Val (decode env txt)))
         | _ \<Rightarrow> JSON_stringify2 env (Val (decode env txt)))"
    by (rule explain_success(2) [OF v r n])
qed

theorem explain_renders_summary_witness:
  "added blank_page
     (explainCaseBtn_click_C (sample_platform (always (Responded 200 ''{}''))) blank_page)
     = [SetText explainStatus ''No case selected.'']
   \<and> requests
       (added (with_case ''c-123'' blank_page)
          (explainCaseBtn_click_C
             (sample_platform (always (Responded 200 ''{\"summary\": \"Host compromised\"}'')))
             (with_case ''c-123'' blank_page)))
     = [json_post ''/explain_case'' ''{\"case_id\":\"c-123\"}'']
   \<and> textContent
       (explainCaseBtn_click_C
          (sample_platform (always (Responded 200 ''{\"summary\": \"Host compromised\"}'')))
          (with_case ''c-123'' blank_page)) explainResult
     = ''Host compromised''
   \<and> textContent
       (explainCaseBtn_click_C (sample_platform (always (Responded 200 ''{}'')))
          (with_case ''c-123'' blank_page)) explainResult
     = ''{}''"
proof -
  let ?e0 = "sample_platform (always (Responded 200 ''{}''))"
  let ?e1 = "sample_platform (always (Responded 200 ''{\"summary\": \"Host compromised\"}''))"
  let ?s = "with_case ''c-123'' blank_page"
  have h0: "\<not> truthy (lastCaseId blank_page)" by code_simp
  have h1: "truthy (lastCaseId ?s)" by code_simp
  have r: "api_request ''/explain_case''
             (post (JSON_stringify ?e1 (JObj [(''case_id'', lastCaseId ?s)])))
           = json_post ''/explain_case'' ''{\"case_id\":\"c-123\"}''"
    by code_simp
  have h2: "truthy (lastCaseId ?s) \<and>
       fetch ?e1 (api_request ''/explain_case''
                    (post (JSON_stringify ?e1 (JObj [(''case_id'', lastCaseId ?s)]))))
         = Responded 200 ''{\"summary\": \"Host compromised\"}'' \<and>
       ok 200 \<and> decode ?e1 ''{\"summary\": \"Host compromised\"}'' \<noteq> JNull"
    by code_simp
  have h3: "truthy (lastCaseId ?s) \<and>
       fetch ?e0 (api_request ''/explain_case''
                    (post (JSON_stringify ?e0 (JObj [(''case_id'', lastCaseId ?s)]))))
         = Responded 200 ''{}'' \<and>
       ok 200 \<and> decode ?e0 ''{}'' \<noteq> JNull"
    by code_simp
  have v1: "(case get_prop (decode ?e1 ''{\"summary\": \"Host compromised\"}'') ''summary'' of
           Inr (Some v) \<Rightarrow>
             (if truthy v then js_string ?e1 v
              else JSON_stringify2 ?e1 (Val (decode ?e1 ''{\"summary\": \"Host compromised\"}'')))
         | _ \<Rightarrow> JSON_stringify2 ?e1 (Val (decode ?e1 ''{\"summary\": \"Host compromised\"}'')))
        = ''Host compromised''"
    by code_simp
  have v0: "(case get_prop (decode ?e0 ''{}'') ''summary'' of
           Inr (Some v) \<Rightarrow>
             (if truthy v then js_string ?e0 v else JSON_stringify2 ?e0 (Val (decode ?e0 ''{}'')))
         | _ \<Rightarrow> JSON_stringify2 ?e0 (Val (decode ?e0 ''{}'')))
        = ''{}''"
    by code_simp
  show ?thesis
    using explain_renders_summary [of blank_page ?e0]
      explain_renders_summary [of ?s ?e1 200 "''{\"summary\": \"Host compromised\"}''"]
      explain_renders_summary [of ?s ?e0 200 "''{}''"]
      h0 h1 h2 h3 r v0 v1
    by simp
qed

subsection \<open>C9: the clear controls\<close>

lemma clear_events:
  "added s (ingestClearBtn_click s) =
     [SetValue ingestText '''', SetValue ingestMetadata '''', SetText ingestStatus '''',
      SetText ingestResult ''{}'']"
  "added s (searchClearBtn_click s) =
     [SetValue searchQuery '''', SetText searchResult ''{}'', SetText searchStatus '''']"
  by (simp_all add: ingestClearBtn_click_def searchClearBtn_click_def Let_def added_def)

lemma clear_case_id_D:
  "search_case_id_D (ingestClearBtn_click s) = search_case_id_D s"
  "search_case_id_D (searchClearBtn_click s) = search_case_id_D s"
  by (simp_all add: ingestClearBtn_click_def searchClearBtn_click_def Let_def search_case_id_D_def)

text \<open>
  C9. In every script (the two handlers have the same text in all four), a click on the
  ingest clear control empties the text and the metadata fields and the status and puts
  \<^verbatim>\<open>{}\<close> into the result; a click on the search clear control empties the query and the
  status and puts \<^verbatim>\<open>{}\<close> into the result. Neither sends a request, and neither changes
  \<^verbatim>\<open>lastCaseId\<close> nor the identifier the search of script D reads. So, when an identifier
  is stored, the search that follows the clear (after the user has typed a query again, for
  the search clear) sends that identifier.
\<close>

theorem clear_keeps_case_id:
  "field_value (ingestClearBtn_click s) ingestText = []
   \<and> field_value (ingestClearBtn_click s) ingestMetadata = []
   \<and> textContent (ingestClearBtn_click s) ingestStatus = []
   \<and> textContent (ingestClearBtn_click s) ingestResult = ''{}''
   \<and> requests (added s (ingestClearBtn_click s)) = []
   \<and> lastCaseId (ingestClearBtn_click s) = lastCaseId s
   \<and> search_case_id_D (ingestClearBtn_click s) = search_case_id_D s
   \<and> field_value (searchClearBtn_click s) searchQuery = []
   \<and> textContent (searchClearBtn_click s) searchStatus = []
   \<and> textContent (searchClearBtn_click s) searchResult = ''{}''
   \<and> requests (added s (searchClearBtn_click s)) = []
   \<and> lastCaseId (searchClearBtn_click s) = lastCaseId s
   \<and> search_case_id_D (searchClearBtn_click s) = search_case_id_D s
   \<and> (truthy (lastCaseId s) \<and> trim q \<noteq> [] \<longrightarrow>
        requests
          (added (user_input (TypeInto searchQuery q) (searchClearBtn_click s))
             (searchBtn_click_B env (user_input (TypeInto searchQuery q) (searchClearBtn_click s))))
        = [search_request env (lastCaseId s)
             (user_input (TypeInto searchQuery q) (searchClearBtn_click s))])
   \<and> (truthy (lastCaseId s) \<and> trim (field_value s searchQuery) \<noteq> [] \<longrightarrow>
        requests (added (ingestClearBtn_click s) (searchBtn_click_B env (ingestClearBtn_click s)))
        = [search_request env (lastCaseId s) (ingestClearBtn_click s)])"
proof -
  let ?t = "user_input (TypeInto searchQuery q) (searchClearBtn_click s)"
  have t: "lastCaseId ?t = lastCaseId s" "field_value ?t searchQuery = q"
    by (simp_all add: user_input_def searchClearBtn_click_def Let_def)
  have u: "field_value (ingestClearBtn_click s) searchQuery = field_value s searchQuery"
    by (simp add: ingestClearBtn_click_def Let_def)
  have fields:
    "field_value (ingestClearBtn_click s) ingestText = []"
    "field_value (ingestClearBtn_click s) ingestMetadata = []"
    "textContent (ingestClearBtn_click s) ingestStatus = []"
    "textContent (ingestClearBtn_click s) ingestResult = ''{}''"
    "field_value (searchClearBtn_click s) searchQuery = []"
    "textContent (searchClearBtn_click s) searchStatus = []"
    "textContent (searchClearBtn_click s) searchResult = ''{}''"
    by (simp_all add: ingestClearBtn_click_def searchClearBtn_click_def Let_def)
  show ?thesis
    by (simp add: fields clear_events clear_lastCaseId clear_case_id_D search_requests_all
        search_valid_def t u)
qed

theorem clear_keeps_case_id_witness:
  "requests
     (added (user_input (TypeInto searchQuery ''malware'')
               (searchClearBtn_click (with_case ''c-123'' blank_page)))
        (searchBtn_click_B (sample_platform (always (Responded 200 ''[]'')))
           (user_input (TypeInto searchQuery ''malware'')
              (searchClearBtn_click (with_case ''c-123'' blank_page)))))
   = [json_post ''/search''
        ''{\"case_id\":\"c-123\",\"query\":\"malware\",\"top_k\":5,\"include_metadata\":false}'']
   \<and> requests
     (added (ingestClearBtn_click (with_case ''c-123'' (typed [(searchQuery, ''malware'')] blank_page)))
        (searchBtn_click_B (sample_platform (always (Responded 200 ''[]'')))
           (ingestClearBtn_click (with_case ''c-123'' (typed [(searchQuery, ''malware'')] blank_page)))))
   = [json_post ''/search''
        ''{\"case_id\":\"c-123\",\"query\":\"malware\",\"top_k\":5,\"include_metadata\":false}'']"
proof -
  let ?env = "sample_platform (always (Responded 200 ''[]''))"
  let ?s = "with_case ''c-123'' blank_page"
  let ?u = "with_case ''c-123'' (typed [(searchQuery, ''malware'')] blank_page)"
  have h1: "truthy (lastCaseId ?s) \<and> trim ''malware'' \<noteq> []" by code_simp
  have h2: "truthy (lastCaseId ?u) \<and> trim (field_value ?u searchQuery) \<noteq> []" by code_simp
  have e1: "search_request ?env (lastCaseId ?s)
              (user_input (TypeInto searchQuery ''malware'') (searchClearBtn_click ?s))
            = json_post ''/search''
        ''{\"case_id\":\"c-123\",\"query\":\"malware\",\"top_k\":5,\"include_metadata\":false}''"
    by code_simp
  have e2: "search_request ?env (lastCaseId ?u) (ingestClearBtn_click ?u)
            = json_post ''/search''
        ''{\"case_id\":\"c-123\",\"query\":\"malware\",\"top_k\":5,\"include_metadata\":false}''"
    by code_simp
  show ?thesis
    using clear_keeps_case_id [of ?s "''malware''" ?env] clear_keeps_case_id [of ?u "''''" ?env]
      h1 h2 e1 e2
    by simp
qed

subsection \<open>C10: report export without a report\<close>

text \<open>
  C10. For every click of the copy or the download control of the report while the
  summary region, trimmed, is empty or is the placeholder \<^verbatim>\<open>{}\<close> (so in particular while
  it is empty or holds just the placeholder), the handler only writes the status message
  that asks to run Explain Case first: there is no clipboard write, no selection, no
  download.
\<close>

theorem export_needs_report:
  assumes "trim (textContent s explainResult) = [] \<or> trim (textContent s explainResult) = ''{}''"
  shows "added s (copyExplainBtn_click_C env s) =
           [SetText explainStatus ''Nothing to copy yet. Run Explain Case first.'']
         \<and> added s (downloadExplainBtn_click_C s) =
           [SetText explainStatus ''Nothing to download yet. Run Explain Case first.'']"
  using assms
  by (auto simp add: copyExplainBtn_click_C_def downloadExplainBtn_click_C_def Let_def added_def)

theorem export_needs_report_witness:
  "added (blank_page\<lparr>textContent := (textContent blank_page)(explainResult := ''{}'')\<rparr>)
     (copyExplainBtn_click_C (sample_platform (always (Responded 200 ''[]'')))
        (blank_page\<lparr>textContent := (textContent blank_page)(explainResult := ''{}'')\<rparr>))
     = [SetText explainStatus ''Nothing to copy yet. Run Explain Case first.'']
   \<and> added (blank_page\<lparr>textContent := (textContent blank_page)(explainResult := ''{}'')\<rparr>)
     (downloadExplainBtn_click_C
        (blank_page\<lparr>textContent := (textContent blank_page)(explainResult := ''{}'')\<rparr>))
     = [SetText explainStatus ''Nothing to download yet. Run Explain Case first.'']
   \<and> added blank_page
     (copyExplainBtn_click_C (sample_platform (always (Responded 200 ''[]''))) blank_page)
     = [SetText explainStatus ''Nothing to copy yet. Run Explain Case first.'']
   \<and> added blank_page (downloadExplainBtn_click_C blank_page)
     = [SetText explainStatus ''Nothing to download yet. Run Explain Case first.'']"
proof -
  let ?env = "sample_platform (always (Responded 200 ''[]''))"
  let ?s = "blank_page\<lparr>textContent := (textContent blank_page)(explainResult := ''{}'')\<rparr>"
  have h1: "trim (textContent ?s explainResult) = [] \<or> trim (textContent ?s explainResult) = ''{}''"
    by code_simp
  have h2: "trim (textContent blank_page explainResult) = []
            \<or> trim (textContent blank_page explainResult) = ''{}''"
    by code_simp
  show ?thesis
    using export_needs_report [OF h1, of ?env] export_needs_report [OF h2, of ?env] by simp
qed

text \<open>With a report in the region, the copy writes it to the clipboard and the download saves it.\<close>

lemma export_with_report:
  "added (with_case ''c-123''
            (blank_page\<lparr>textContent := (textContent blank_page)(explainResult := ''Host compromised'')\<rparr>))
     (copyExplainBtn_click_C (sample_platform (always (Responded 200 ''[]'')))
        (with_case ''c-123''
           (blank_page\<lparr>textContent := (textContent blank_page)(explainResult := ''Host compromised'')\<rparr>)))
     = [ClipboardWrite ''Host compromised'', SetText explainStatus ''Report copied to clipboard.'']"
  "added (with_case ''c-123''
            (blank_page\<lparr>textContent := (textContent blank_page)(explainResult := ''Host compromised'')\<rparr>))
     (downloadExplainBtn_click_C
        (with_case ''c-123''
           (blank_page\<lparr>textContent := (textContent blank_page)(explainResult := ''Host compromised'')\<rparr>)))
     = [Download ''dfir_report_c-123.md'' ''Host compromised'',
        SetText explainStatus ''Report downloaded as dfir_report_c-123.md.'']"
  by code_simp+

end
